theory Spec2Isabelle
  imports Main "HOL-Library.Sublist"
begin

section \<open>Python strings\<close>

text \<open>
  A Python \<open>str\<close> is modelled as a \<open>string\<close>, each \<open>char\<close> read as one code point
  (so the model covers the code points below 256). \<open>isspace\<close> is \<open>str.isspace\<close> on that
  range, \<open>strip\<close> is \<open>str.strip()\<close> without arguments, \<open>contains sub s\<close> is
  \<open>sub in s\<close>, \<open>lower\<close> is \<open>str.lower()\<close>.
\<close>

definition isspace :: "char \<Rightarrow> bool" where
  "isspace c = (of_char c \<in> {9, 10, 11, 12, 13, 28, 29, 30, 31, 32, 133, 160 :: nat})"

definition strip :: "string \<Rightarrow> string" where
  "strip s = rev (dropWhile isspace (rev (dropWhile isspace s)))"

fun contains :: "string \<Rightarrow> string \<Rightarrow> bool" where
  "contains sub [] = (sub = [])"
| "contains sub (c # cs) = (prefix sub (c # cs) \<or> contains sub cs)"

definition lower_char :: "char \<Rightarrow> char" where
  "lower_char c =
     (let n = (of_char c :: nat)
      in if (65 \<le> n \<and> n \<le> 90) \<or> (192 \<le> n \<and> n \<le> 222 \<and> n \<noteq> 215)
         then char_of (n + 32) else c)"

definition lower :: "string \<Rightarrow> string" where
  "lower s = map lower_char s"

text \<open>
  \<open>split_py sep s\<close> is \<open>s.split(sep)\<close> for a non-empty separator: the string is scanned
  from the left, every occurrence found closes a piece and the scan goes on behind it.
  (Python raises \<open>ValueError\<close> on an empty separator; the only separator the program
  uses is the literal \<open>"Answer:"\<close>.)
\<close>

fun split_py :: "string \<Rightarrow> string \<Rightarrow> string list" where
  "split_py sep [] = [[]]"
| "split_py sep (c # cs) =
     (if sep \<noteq> [] \<and> prefix sep (c # cs)
      then [] # split_py sep (drop (length sep) (c # cs))
      else (case split_py sep cs of
              [] \<Rightarrow> [[c]]
            | p # ps \<Rightarrow> (c # p) # ps))"

text \<open>\<open>join_py sep xs\<close> is \<open>sep.join(xs)\<close>.\<close>

fun join_py :: "string \<Rightarrow> string list \<Rightarrow> string" where
  "join_py sep [] = []"
| "join_py sep [x] = x"
| "join_py sep (x # y # ys) = x @ sep @ join_py sep (y # ys)"

text \<open>Decimal digits of a natural number, as \<open>str(n)\<close> prints them.\<close>

function digits :: "nat \<Rightarrow> string" where
  "digits n =
     (if n < 10 then [char_of (48 + n)]
      else digits (n div 10) @ [char_of (48 + n mod 10)])"
  by pat_completeness auto
termination
  by (relation "measure id") auto

section \<open>Exceptions\<close>

text \<open>
  Every exception the program can see is a value. \<open>HTTPException\<close> carries its status
  code and detail; the other classes carry their message. \<open>LibraryError\<close> stands for
  whatever a call into transformers, langchain, FAISS or the file system raises.
  \<open>str_exn\<close> is \<open>str(e)\<close>.
\<close>

datatype exn =
    HTTPException nat string
  | TypeError string
  | AttributeError string
  | ValidationError string
  | LibraryError string

fun str_exn :: "exn \<Rightarrow> string" where
  "str_exn (HTTPException code detail) = digits code @ '': '' @ detail"
| "str_exn (TypeError m) = m"
| "str_exn (AttributeError m) = m"
| "str_exn (ValidationError m) = m"
| "str_exn (LibraryError m) = m"

text \<open>An f-string prints \<open>None\<close> for a missing value.\<close>

fun str_opt :: "string option \<Rightarrow> string" where
  "str_opt None = ''None''"
| "str_opt (Some s) = s"

text \<open>
  The message of the \<open>AttributeError\<close> raised by \<open>v.attr\<close> when \<open>v\<close> has no such
  attribute; \<open>tname\<close> is the name of the class of \<open>v\<close>.
\<close>

definition quoted :: "string \<Rightarrow> string" where
  "quoted s = [CHR 0x27] @ s @ [CHR 0x27]"

definition no_attribute :: "string \<Rightarrow> string \<Rightarrow> exn" where
  "no_attribute tname attr =
     AttributeError (quoted tname @ '' object has no attribute '' @ quoted attr)"

text \<open>Truth value of an optional string: \<open>None\<close> and \<open>""\<close> are false.\<close>

fun truthy :: "string option \<Rightarrow> bool" where
  "truthy None = False"
| "truthy (Some s) = (s \<noteq> [])"

section \<open>Dictionaries\<close>

text \<open>
  A dict is an association list; \<open>dict_get d k dflt\<close> is \<open>d.get(k, dflt)\<close> and
  \<open>dict_get_none d k\<close> is \<open>d.get(k)\<close> on a dict of optional strings.
\<close>

type_synonym 'v dict = "(string \<times> 'v) list"

definition dict_get :: "'v dict \<Rightarrow> string \<Rightarrow> 'v \<Rightarrow> 'v" where
  "dict_get d k dflt = (case map_of d k of None \<Rightarrow> dflt | Some v \<Rightarrow> v)"

definition dict_get_none :: "string option dict \<Rightarrow> string \<Rightarrow> string option" where
  "dict_get_none d k = dict_get d k None"

section \<open>Objects of the libraries\<close>

text \<open>
  The objects the program builds are data: what was asked for is recorded in the object.
  A \<open>pipeline\<close> is the result of \<open>transformers.pipeline(task, model=, device=,
  torch_dtype=, max_new_tokens=)\<close>; \<open>HFWrapper\<close> is the program's own class, with its
  fields \<open>pipeline\<close> and \<open>is_t5\<close>; \<open>HuggingFaceHub repo_id token\<close> and
  \<open>AzureOpenAI deployment_name model_name\<close> are the remote clients (their constant
  keyword arguments, temperature 0.5 and length 512, are not recorded).
\<close>

datatype dtype = Float16 | Float32

datatype pipeline =
  Pipeline (task: string) (model: "string option") (device: int)
           (torch_dtype: dtype) (max_new_tokens: nat)

datatype llm =
    HFWrapper pipeline bool
  | HuggingFaceHub "string option" "string option"
  | AzureOpenAI "string option" "string option"

datatype embeddings =
    AzureOpenAIEmbeddings "string option"
  | HuggingFaceEmbeddings string
  | OpenAIEmbeddings string
  | FakeEmbeddings nat

datatype document = Document (page_content: string) (metadata: "string dict")

text \<open>
  A \<open>FAISS\<close> store holds the records read from disk and the embedding function it was
  loaded with; \<open>Retriever vs k\<close> is \<open>vs.as_retriever(search_kwargs={"k": k})\<close>.
\<close>

datatype vectorstore = FAISS "document list" embeddings

datatype retriever = Retriever vectorstore nat

text \<open>
  A value decoded from a JSON request body (\<open>Any\<close> in the signature of \<open>rag\<close>).
  Numbers are integers here; a float would behave like \<open>PInt\<close> wherever the program
  looks at it. \<open>py_truthy\<close> is the truth value Python gives it, \<open>type_name\<close> the
  name of its class.
\<close>

datatype pyval =
    PNone
  | PBool bool
  | PInt int
  | PStr string
  | PList "pyval list"
  | PDict "(string \<times> pyval) list"

fun py_truthy :: "pyval \<Rightarrow> bool" where
  "py_truthy PNone = False"
| "py_truthy (PBool b) = b"
| "py_truthy (PInt i) = (i \<noteq> 0)"
| "py_truthy (PStr s) = (s \<noteq> [])"
| "py_truthy (PList xs) = (xs \<noteq> [])"
| "py_truthy (PDict d) = (d \<noteq> [])"

fun type_name :: "pyval \<Rightarrow> string" where
  "type_name PNone = ''NoneType''"
| "type_name (PBool b) = ''bool''"
| "type_name (PInt i) = ''int''"
| "type_name (PStr s) = ''str''"
| "type_name (PList xs) = ''list''"
| "type_name (PDict d) = ''dict''"

section \<open>The world outside the process\<close>

text \<open>
  Calls that leave the program are events. A trace is the list of events so far, oldest
  first: constructor calls into the libraries, \<open>FAISS.load_local\<close>, and assignments to
  \<open>os.environ\<close>.
\<close>

datatype event =
    SetEnv string string
  | Construct_pipeline pipeline
  | Construct_llm llm
  | Construct_embeddings embeddings
  | Load_local string embeddings

text \<open>
  A \<open>world\<close> is the state of everything outside the functions at one moment, and the
  behaviour of the libraries in it:
  \<^item> \<open>path_exists\<close> is \<open>os.path.exists\<close>;
  \<^item> \<open>read_config\<close> is the outcome of opening and parsing \<open>./configs/latest.json\<close>
    (a dict of dicts of optional strings, or the exception raised);
  \<^item> \<open>global_config\<close> is the dict imported from \<open>api.ingestion\<close>, whose source is not
    part of the files at hand, so it is a parameter;
  \<^item> \<open>cuda_available\<close> is \<open>torch.cuda.is_available()\<close>;
  \<^item> \<open>raises tr ev\<close> tells whether the library call \<open>ev\<close>, made after the trace
    \<open>tr\<close>, raises (\<open>Some\<close> of the message) or returns its object (\<open>None\<close>);
  \<^item> \<open>stored_documents\<close> is the content of the index persisted at a path;
  \<^item> \<open>get_relevant_documents\<close>, \<open>run_pipeline\<close> and \<open>run_remote\<close> are retrieval and
    generation, each returning its result or the exception raised;
  \<^item> \<open>validation_message v\<close> is the text of the error pydantic raises when
    \<open>QueryRequest\<close> is given the non-string \<open>v\<close> as its question;
  \<^item> \<open>normal_draw k i\<close> is the \<open>i\<close>-th number that the random generator hands out
    for the \<open>k\<close>-th vector asked of it. A number drawn is a \<open>sample\<close>; samples are
    only ever compared, so each is written as an integer.
\<close>

type_synonym sample = int

record world =
  path_exists :: "string \<Rightarrow> bool"
  read_config :: "exn + (string option dict) dict"
  global_config :: "string option dict"
  cuda_available :: bool
  raises :: "event list \<Rightarrow> event \<Rightarrow> string option"
  stored_documents :: "string \<Rightarrow> document list"
  get_relevant_documents :: "retriever \<Rightarrow> string \<Rightarrow> exn + document list"
  run_pipeline :: "pipeline \<Rightarrow> string \<Rightarrow> exn + string"
  run_remote :: "llm \<Rightarrow> string \<Rightarrow> exn + string"
  validation_message :: "pyval \<Rightarrow> string"
  normal_draw :: "nat \<Rightarrow> nat \<Rightarrow> sample"

text \<open>
  \<open>construct w tr ev obj\<close> makes the library call \<open>ev\<close>: the call is appended to the
  trace, and the result is the object or the exception.
\<close>

definition construct :: "world \<Rightarrow> event list \<Rightarrow> event \<Rightarrow> 'a \<Rightarrow> (exn + 'a) \<times> event list" where
  "construct w tr ev obj =
     (case raises w tr ev of
        None \<Rightarrow> (Inr obj, tr @ [ev])
      | Some m \<Rightarrow> (Inl (LibraryError m), tr @ [ev]))"

text \<open>\<open>os.environ[k] = v\<close> raises \<open>TypeError\<close> when \<open>v\<close> is \<open>None\<close>.\<close>

definition set_environ :: "event list \<Rightarrow> string \<Rightarrow> string option \<Rightarrow> (exn + unit) \<times> event list" where
  "set_environ tr k v =
     (case v of
        None \<Rightarrow> (Inl (TypeError ''str expected, not NoneType''), tr)
      | Some s \<Rightarrow> (Inr (), tr @ [SetEnv k s]))"

text \<open>Sequencing: the next statement runs only when the one before did not raise.\<close>

definition and_then ::
  "(exn + 'a) \<times> event list \<Rightarrow> ('a \<Rightarrow> event list \<Rightarrow> (exn + 'b) \<times> event list)
     \<Rightarrow> (exn + 'b) \<times> event list" where
  "and_then m f = (case m of (Inl e, tr) \<Rightarrow> (Inl e, tr) | (Inr a, tr) \<Rightarrow> f a tr)"

section \<open>HFWrapper\<close>

text \<open>
  \<open>HFWrapper._call\<close>: the text generated by the pipeline, stripped; unless \<open>is_t5\<close>,
  the first \<open>len(prompt)\<close> characters are cut off before stripping.
\<close>

definition HFWrapper_call :: "world \<Rightarrow> pipeline \<Rightarrow> bool \<Rightarrow> string \<Rightarrow> exn + string" where
  "HFWrapper_call w pipe is_t5 prompt =
     (if is_t5 then
        (case run_pipeline w pipe prompt of
           Inl e \<Rightarrow> Inl e
         | Inr result \<Rightarrow> Inr (strip result))
      else
        (case run_pipeline w pipe prompt of
           Inl e \<Rightarrow> Inl e
         | Inr result \<Rightarrow> Inr (strip (drop (length prompt) result))))"

section \<open>Resolving the generation backend\<close>

text \<open>
  \<open>latest_config\<close> is the first block of \<open>get_llm\<close>: the dict stays empty when the file is
  absent, cannot be read, or has no \<open>llm_config\<close> entry; otherwise it has all six keys,
  each holding what \<open>llm_data.get\<close> returned.
\<close>

definition latest_config :: "world \<Rightarrow> string option dict" where
  "latest_config w =
     (if path_exists w ''./configs/latest.json'' then
        (case read_config w of
           Inl e \<Rightarrow> []
         | Inr config_data \<Rightarrow>
             (case map_of config_data ''llm_config'' of
                None \<Rightarrow> []
              | Some llm_data \<Rightarrow>
                  [(''provider'', dict_get_none llm_data ''llm_provider''),
                   (''model'', dict_get_none llm_data ''llm_model''),
                   (''token'', dict_get_none llm_data ''api_token''),
                   (''azure_endpoint'', dict_get_none llm_data ''azure_endpoint''),
                   (''azure_deployment'', dict_get_none llm_data ''azure_deployment''),
                   (''api_version'', dict_get_none llm_data ''api_version'')]))
      else [])"

definition config_to_use :: "world \<Rightarrow> string option dict" where
  "config_to_use w = (if latest_config w \<noteq> [] then latest_config w else global_config w)"

definition fallback_model :: string where
  "fallback_model = ''google/flan-t5-base''"

text \<open>The pipeline both branches build; only task and model differ.\<close>

definition new_pipeline :: "world \<Rightarrow> string \<Rightarrow> string option \<Rightarrow> pipeline" where
  "new_pipeline w tsk mdl =
     Pipeline tsk mdl (if cuda_available w then 0 else - 1)
              (if cuda_available w then Float16 else Float32) 512"

text \<open>The local \<open>text2text-generation\<close> model that the hosted providers fall back to.\<close>

definition fallback_llm :: "world \<Rightarrow> llm" where
  "fallback_llm w = HFWrapper (new_pipeline w ''text2text-generation'' (Some fallback_model)) True"

definition construct_fallback :: "world \<Rightarrow> event list \<Rightarrow> (exn + llm) \<times> event list" where
  "construct_fallback w tr =
     construct w tr
       (Construct_pipeline (new_pipeline w ''text2text-generation'' (Some fallback_model)))
       (fallback_llm w)"

text \<open>Branch \<open>provider == "local"\<close>.\<close>

definition get_llm_local :: "world \<Rightarrow> event list \<Rightarrow> string option \<Rightarrow> (exn + llm) \<times> event list" where
  "get_llm_local w tr mdl =
     (case and_then
             (construct w tr (Construct_pipeline (new_pipeline w ''text-generation'' mdl))
                (new_pipeline w ''text-generation'' mdl))
             (\<lambda>pipe tr'.
                case mdl of
                  None \<Rightarrow> (Inl (no_attribute ''NoneType'' ''lower''), tr')
                | Some m \<Rightarrow> (Inr (HFWrapper pipe (contains ''t5'' (lower m))), tr'))
      of
        (Inl e, tr') \<Rightarrow>
          (Inl (HTTPException 500 (''Error loading local model: '' @ str_exn e)), tr')
      | (Inr l, tr') \<Rightarrow> (Inr l, tr'))"

text \<open>Branch \<open>provider in ["hf_free", "hf_paid"]\<close>.\<close>

definition get_llm_hf ::
  "world \<Rightarrow> event list \<Rightarrow> string option \<Rightarrow> string option \<Rightarrow> (exn + llm) \<times> event list" where
  "get_llm_hf w tr mdl token =
     (case (if \<not> truthy token \<or> mdl = Some ''mistralai/Mixtral-8x7B-Instruct-v0.1''
            then construct_fallback w tr
            else construct w tr (Construct_llm (HuggingFaceHub mdl token))
                   (HuggingFaceHub mdl token))
      of
        (Inr l, tr') \<Rightarrow> (Inr l, tr')
      | (Inl e, tr') \<Rightarrow>
          (case construct_fallback w tr' of
             (Inr l, tr'') \<Rightarrow> (Inr l, tr'')
           | (Inl inner_e, tr'') \<Rightarrow>
               (Inl (HTTPException 500 (''Error loading fallback model: '' @ str_exn inner_e)),
                tr'')))"

text \<open>Branch \<open>provider == "azure"\<close>.\<close>

definition get_llm_azure ::
  "world \<Rightarrow> event list \<Rightarrow> string option dict \<Rightarrow> string option \<Rightarrow> string option
     \<Rightarrow> (exn + llm) \<times> event list" where
  "get_llm_azure w tr cfg mdl token =
     (case and_then (set_environ tr ''OPENAI_API_KEY'' token) (\<lambda>_ tr1.
           and_then (set_environ tr1 ''OPENAI_API_VERSION''
                       (dict_get cfg ''api_version'' (Some ''2024-05-01-preview''))) (\<lambda>_ tr2.
           and_then (set_environ tr2 ''OPENAI_API_BASE''
                       (dict_get cfg ''azure_endpoint'' (Some []))) (\<lambda>_ tr3.
           and_then (set_environ tr3 ''OPENAI_API_TYPE'' (Some ''azure'')) (\<lambda>_ tr4.
           construct w tr4
             (Construct_llm (AzureOpenAI (dict_get_none cfg ''azure_deployment'') mdl))
             (AzureOpenAI (dict_get_none cfg ''azure_deployment'') mdl)))))
      of
        (Inr l, tr') \<Rightarrow> (Inr l, tr')
      | (Inl e, tr') \<Rightarrow>
          (Inl (HTTPException 500 (''Error loading Azure OpenAI model: '' @ str_exn e)), tr'))"

text \<open>
  The local variables \<open>provider\<close>, \<open>model\<close> and \<open>token\<close> of \<open>get_llm\<close>; a token
  that is not empty is stripped.
\<close>

definition provider_of :: "world \<Rightarrow> string option" where
  "provider_of w = dict_get (config_to_use w) ''provider'' (Some ''local'')"

definition model_of :: "world \<Rightarrow> string option" where
  "model_of w = dict_get (config_to_use w) ''model'' (Some ''google/flan-t5-base'')"

definition token_of :: "world \<Rightarrow> string option" where
  "token_of w =
     (let token = dict_get (config_to_use w) ''token'' (Some [])
      in if truthy token then map_option strip token else token)"

text \<open>\<open>get_llm\<close>: the provider decides.\<close>

definition get_llm :: "world \<Rightarrow> event list \<Rightarrow> (exn + llm) \<times> event list" where
  "get_llm w tr =
     (if provider_of w = Some ''local'' then get_llm_local w tr (model_of w)
      else if provider_of w \<in> {Some ''hf_free'', Some ''hf_paid''}
        then get_llm_hf w tr (model_of w) (token_of w)
      else if provider_of w = Some ''azure''
        then get_llm_azure w tr (config_to_use w) (model_of w) (token_of w)
      else (Inl (HTTPException 400 (''Unsupported LLM provider: '' @ str_opt (provider_of w))),
            tr))"

section \<open>Resolving the embedding function\<close>

definition DEFAULT_EMBEDDING_MODEL :: string where
  "DEFAULT_EMBEDDING_MODEL = ''sentence-transformers/all-MiniLM-L6-v2''"

text \<open>
  The body of the \<open>if\<close> in \<open>get_embeddings\<close>: four assignments to the environment, then
  the enterprise embeddings on the standard deployment and, when that raises, on the
  deployment of the chat model.
\<close>

definition azure_embeddings ::
  "world \<Rightarrow> event list \<Rightarrow> string option dict \<Rightarrow> (exn + embeddings) \<times> event list" where
  "azure_embeddings w tr llm_config =
     and_then (set_environ tr ''OPENAI_API_KEY'' (dict_get_none llm_config ''api_token'')) (\<lambda>_ tr1.
     and_then (set_environ tr1 ''OPENAI_API_VERSION''
                 (dict_get llm_config ''api_version'' (Some ''2024-05-01-preview''))) (\<lambda>_ tr2.
     and_then (set_environ tr2 ''OPENAI_API_BASE''
                 (dict_get llm_config ''azure_endpoint'' (Some []))) (\<lambda>_ tr3.
     and_then (set_environ tr3 ''OPENAI_API_TYPE'' (Some ''azure'')) (\<lambda>_ tr4.
       case construct w tr4
              (Construct_embeddings (AzureOpenAIEmbeddings (Some ''text-embedding-ada-002'')))
              (AzureOpenAIEmbeddings (Some ''text-embedding-ada-002''))
       of
         (Inr emb, tr5) \<Rightarrow> (Inr emb, tr5)
       | (Inl embedding_error, tr5) \<Rightarrow>
           construct w tr5
             (Construct_embeddings (AzureOpenAIEmbeddings (dict_get_none llm_config ''azure_deployment'')))
             (AzureOpenAIEmbeddings (dict_get_none llm_config ''azure_deployment''))))))"

text \<open>
  The first \<open>try\<close> block of \<open>get_embeddings\<close>: \<open>Inr (Some emb)\<close> when it returns
  \<open>emb\<close>, \<open>Inr None\<close> when it ends without returning, \<open>Inl e\<close> when it raises.
\<close>

definition embeddings_from_config ::
  "world \<Rightarrow> event list \<Rightarrow> (exn + embeddings option) \<times> event list" where
  "embeddings_from_config w tr =
     (if path_exists w ''./configs/latest.json'' then
        (case read_config w of
           Inl e \<Rightarrow> (Inl e, tr)
         | Inr config \<Rightarrow>
             (let llm_config = dict_get config ''llm_config'' []
              in if truthy (dict_get_none llm_config ''api_token'')
                    \<and> dict_get_none llm_config ''llm_provider'' = Some ''azure''
                 then (case azure_embeddings w tr llm_config of
                         (Inl e, tr') \<Rightarrow> (Inl e, tr')
                       | (Inr emb, tr') \<Rightarrow> (Inr (Some emb), tr'))
                 else (Inr None, tr)))
      else (Inr None, tr))"

text \<open>The three steps of \<open>get_embeddings\<close> that follow the first block.\<close>

definition default_embeddings :: "world \<Rightarrow> event list \<Rightarrow> embeddings \<times> event list" where
  "default_embeddings w tr =
     (case construct w tr
             (Construct_embeddings (HuggingFaceEmbeddings DEFAULT_EMBEDDING_MODEL))
             (HuggingFaceEmbeddings DEFAULT_EMBEDDING_MODEL)
      of
        (Inr emb, tr1) \<Rightarrow> (emb, tr1)
      | (Inl e, tr1) \<Rightarrow>
          (case construct w tr1
                  (Construct_embeddings (OpenAIEmbeddings ''text-embedding-ada-002''))
                  (OpenAIEmbeddings ''text-embedding-ada-002'')
           of
             (Inr emb, tr2) \<Rightarrow> (emb, tr2)
           | (Inl e', tr2) \<Rightarrow> (FakeEmbeddings 384, tr2)))"

text \<open>
  \<open>FakeEmbeddings(size=n).embed_query(text)\<close>, the class of \<open>langchain_core\<close> that
  the last step of \<open>get_embeddings\<close> instantiates: the method ignores the text and
  returns \<open>n\<close> numbers drawn from a normal distribution, drawn anew on every call.
  \<open>call\<close> counts the vectors asked of the generator so far.
\<close>

definition fake_embed_query :: "world \<Rightarrow> nat \<Rightarrow> nat \<Rightarrow> string \<Rightarrow> sample list" where
  "fake_embed_query w n call text = map (normal_draw w call) [0..<n]"

definition get_embeddings :: "world \<Rightarrow> event list \<Rightarrow> embeddings \<times> event list" where
  "get_embeddings w tr =
     (case embeddings_from_config w tr of
        (Inr (Some emb), tr1) \<Rightarrow> (emb, tr1)
      | (Inr None, tr1) \<Rightarrow> default_embeddings w tr1
      | (Inl e, tr1) \<Rightarrow> default_embeddings w tr1)"

section \<open>Loading the index\<close>

text \<open>\<open>load_vectorstore\<close> of the vector store utilities; an exception of the load is not caught.\<close>

definition load_vectorstore ::
  "world \<Rightarrow> event list \<Rightarrow> string \<Rightarrow> (exn + vectorstore option) \<times> event list" where
  "load_vectorstore w tr path =
     (if \<not> path_exists w path then (Inr None, tr)
      else (case get_embeddings w tr of
              (emb, tr1) \<Rightarrow>
                (case construct w tr1 (Load_local path emb) (FAISS (stored_documents w path) emb) of
                   (Inl e, tr2) \<Rightarrow> (Inl e, tr2)
                 | (Inr vs, tr2) \<Rightarrow> (Inr (Some vs), tr2))))"

text \<open>\<open>get_retriever\<close> of the query module; here an exception of the load gives \<open>None\<close>.\<close>

definition get_retriever :: "world \<Rightarrow> event list \<Rightarrow> retriever option \<times> event list" where
  "get_retriever w tr =
     (if \<not> path_exists w ''./vectorstore'' then (None, tr)
      else (case get_embeddings w tr of
              (emb, tr1) \<Rightarrow>
                (case construct w tr1 (Load_local ''./vectorstore'' emb)
                        (FAISS (stored_documents w ''./vectorstore'') emb)
                 of
                   (Inl e, tr2) \<Rightarrow> (None, tr2)
                 | (Inr vs, tr2) \<Rightarrow> (Some (Retriever vs 4), tr2))))"

section \<open>The chain\<close>

text \<open>
  \<open>create_rag_chain\<close> returns a runnable: either one that answers every input with a
  fixed message, or the retrieval chain over the retriever and the backend it was built
  with.
\<close>

datatype chain = MessageChain string | RagChain retriever llm

definition create_rag_chain :: "world \<Rightarrow> event list \<Rightarrow> chain \<times> event list" where
  "create_rag_chain w tr =
     (case get_retriever w tr of
        (None, tr1) \<Rightarrow>
          (MessageChain ''No documents have been ingested yet. Please ingest some documents first.'',
           tr1)
      | (Some r, tr1) \<Rightarrow>
          (case get_llm w tr1 of
             (Inl e, tr2) \<Rightarrow> (MessageChain (''Error creating RAG chain: '' @ str_exn e), tr2)
           | (Inr l, tr2) \<Rightarrow> (RagChain r l, tr2)))"

text \<open>The prompt template, with the question and the context put in.\<close>

definition indent :: string where
  "indent = ''        ''"

definition rag_prompt :: "string \<Rightarrow> string \<Rightarrow> string" where
  "rag_prompt question context =
     ''\<newline>'' @ indent
     @ ''You are an AI assistant for question-answering tasks. Use the following pieces of retrieved context to answer the user''
     @ [CHR 0x27] @ ''s question. \<newline>'' @ indent
     @ ''If you don'' @ [CHR 0x27]
     @ ''t know the answer or if the answer is not contained in the provided context, just say that you don''
     @ [CHR 0x27] @ ''t know.\<newline>'' @ indent
     @ ''Use only the information provided in the context to answer the question. Do not use prior knowledge.\<newline>''
     @ indent @ ''Keep the answer concise - no more than three sentences maximum.\<newline>''
     @ indent @ ''\<newline>''
     @ indent @ ''Question: '' @ question @ '' \<newline>''
     @ indent @ ''\<newline>''
     @ indent @ ''Context: '' @ context @ '' \<newline>''
     @ indent @ ''\<newline>''
     @ indent @ ''Answer:\<newline>''
     @ indent"

definition format_docs :: "document list \<Rightarrow> string" where
  "format_docs docs = join_py ''\<newline>\<newline>'' (map page_content docs)"

text \<open>Calling a backend on a prompt.\<close>

definition llm_invoke :: "world \<Rightarrow> llm \<Rightarrow> string \<Rightarrow> exn + string" where
  "llm_invoke w l prompt =
     (case l of
        HFWrapper pipe is_t5 \<Rightarrow> HFWrapper_call w pipe is_t5 prompt
      | HuggingFaceHub repo token \<Rightarrow> run_remote w l prompt
      | AzureOpenAI deployment mdl \<Rightarrow> run_remote w l prompt)"

text \<open>\<open>chain.invoke(question)\<close>.\<close>

definition invoke :: "world \<Rightarrow> chain \<Rightarrow> string \<Rightarrow> exn + string" where
  "invoke w c question =
     (case c of
        MessageChain message \<Rightarrow> Inr message
      | RagChain r l \<Rightarrow>
          (case get_relevant_documents w r question of
             Inl e \<Rightarrow> Inl e
           | Inr docs \<Rightarrow> llm_invoke w l (rag_prompt question (format_docs docs))))"

section \<open>The endpoints\<close>

record query_request =
  question :: string
  include_sources :: bool

text \<open>
  The three shapes of the dict that \<open>query\<close> returns: \<open>AnswerResponse a None\<close> is
  \<open>{"answer": a}\<close>, \<open>AnswerResponse a (Some s)\<close> is \<open>{"answer": a, "sources": s}\<close>,
  and \<open>ErrorResponse m\<close> is \<open>{"status": "error", "message": m}\<close>.
\<close>

datatype response =
    AnswerResponse string "string list option"
  | ErrorResponse string

text \<open>The lines of \<open>query\<close> that clean the raw answer.\<close>

definition extract_answer :: "string \<Rightarrow> string" where
  "extract_answer raw_answer =
     (if contains ''Answer:'' raw_answer
      then strip (last (split_py ''Answer:'' raw_answer))
      else raw_answer)"

text \<open>
  \<open>query\<close>. Its first argument is the module-level \<open>rag_chain\<close>; the world is the one
  at the time of the request. Whatever is raised inside becomes an error response.
\<close>

definition query :: "chain \<Rightarrow> world \<Rightarrow> event list \<Rightarrow> query_request \<Rightarrow> response \<times> event list" where
  "query rag_chain w tr request =
     (case get_retriever w tr of
        (None, tr1) \<Rightarrow>
          (ErrorResponse ''No vector store available. Please ingest documents first.'', tr1)
      | (Some r0, tr1) \<Rightarrow>
          (case invoke w rag_chain (question request) of
             Inl e \<Rightarrow> (ErrorResponse (str_exn e), tr1)
           | Inr raw_answer \<Rightarrow>
               (let answer = extract_answer raw_answer
                in case get_retriever w tr1 of
                     (None, tr2) \<Rightarrow>
                       (ErrorResponse
                          (str_exn (no_attribute ''NoneType'' ''get_relevant_documents'')), tr2)
                   | (Some r, tr2) \<Rightarrow>
                       (case get_relevant_documents w r (question request) of
                          Inl e \<Rightarrow> (ErrorResponse (str_exn e), tr2)
                        | Inr docs \<Rightarrow>
                            (if include_sources request
                             then (AnswerResponse answer (Some (map page_content docs)), tr2)
                             else (AnswerResponse answer None, tr2))))))"

text \<open>
  The two shapes of the dict that \<open>rag\<close> returns: \<open>StatusError m\<close> is
  \<open>{"status": "error", "message": m}\<close> and \<open>Output s\<close> is \<open>{"output": s}\<close>.
\<close>

datatype rag_response = StatusError string | Output string

text \<open>
  \<open>rag\<close>. \<open>.get\<close> on a value that is not a dict raises \<open>AttributeError\<close>, and
  \<open>QueryRequest\<close> refuses a question that is not a string; both are caught by the
  handler of \<open>rag\<close>.
\<close>

definition rag :: "chain \<Rightarrow> world \<Rightarrow> event list \<Rightarrow> pyval dict \<Rightarrow> rag_response \<times> event list" where
  "rag rag_chain w tr input_data =
     (let inp = dict_get input_data ''input'' (PDict [])
      in case inp of
           PDict d \<Rightarrow>
             (let q = dict_get d ''question'' (PStr [])
              in if \<not> py_truthy q then (StatusError ''No question provided'', tr)
                 else (case q of
                         PStr s \<Rightarrow>
                           (case query rag_chain w tr \<lparr>question = s, include_sources = False\<rparr> of
                              (AnswerResponse a srcs, tr') \<Rightarrow> (Output a, tr')
                            | (ErrorResponse m, tr') \<Rightarrow> (Output (''Error: '' @ m), tr'))
                       | _ \<Rightarrow>
                           (Output (''Error: '' @ str_exn (ValidationError (validation_message w q))),
                            tr)))
         | _ \<Rightarrow>
             (Output (''Error: '' @ str_exn (no_attribute (type_name inp) ''get'')), tr))"

section \<open>The process\<close>

text \<open>
  The module is loaded once: \<open>rag_chain = create_rag_chain()\<close> runs in the world of that
  moment. Every later request is served by \<open>query\<close> with that chain, in the world of
  the request.
\<close>

definition serve_query :: "world \<Rightarrow> world \<Rightarrow> query_request \<Rightarrow> response" where
  "serve_query w_load w_request request =
     (case create_rag_chain w_load [] of
        (rag_chain, tr) \<Rightarrow> fst (query rag_chain w_request tr request))"

definition serve_rag :: "world \<Rightarrow> world \<Rightarrow> pyval dict \<Rightarrow> rag_response" where
  "serve_rag w_load w_request input_data =
     (case create_rag_chain w_load [] of
        (rag_chain, tr) \<Rightarrow> fst (rag rag_chain w_request tr input_data))"

section \<open>Vocabulary of the specification\<close>

text \<open>The \<open>sources\<close> field of a response of \<open>query\<close>, \<open>None\<close> when the dict has none.\<close>

fun sources_of :: "response \<Rightarrow> string list option" where
  "sources_of (AnswerResponse a s) = s"
| "sources_of (ErrorResponse m) = None"

text \<open>The events that a run added to the trace it started from.\<close>

definition new_events :: "event list \<Rightarrow> event list \<Rightarrow> event list" where
  "new_events tr tr' = drop (length tr) tr'"

text \<open>A call to the remote generation API: the construction of a remote client.\<close>

fun is_remote_call :: "event \<Rightarrow> bool" where
  "is_remote_call (Construct_llm l) = True"
| "is_remote_call (SetEnv k v) = False"
| "is_remote_call (Construct_pipeline p) = False"
| "is_remote_call (Construct_embeddings e) = False"
| "is_remote_call (Load_local p e) = False"

text \<open>
  The fallback ladder as the specification words it: the steps are attempted in order,
  the ladder advances only when a step raises, the first step that succeeds gives the
  result, and the last resort is returned when every step has raised.
\<close>

fun first_success ::
  "(event list \<Rightarrow> (exn + 'a) \<times> event list) list \<Rightarrow> 'a \<Rightarrow> event list \<Rightarrow> 'a \<times> event list" where
  "first_success [] last_resort tr = (last_resort, tr)"
| "first_success (step # steps) last_resort tr =
     (case step tr of
        (Inr obj, tr') \<Rightarrow> (obj, tr')
      | (Inl e, tr') \<Rightarrow> first_success steps last_resort tr')"

text \<open>
  The steps of the embedding ladder. The enterprise step is on the ladder when the
  persisted configuration can be read, names the provider \<open>azure\<close> and holds a
  credential; it sets the environment and tries the enterprise embeddings.
\<close>

definition persisted_llm_config :: "world \<Rightarrow> string option dict" where
  "persisted_llm_config w =
     (case read_config w of Inl e \<Rightarrow> [] | Inr config \<Rightarrow> dict_get config ''llm_config'' [])"

definition azure_configured :: "world \<Rightarrow> bool" where
  "azure_configured w =
     (path_exists w ''./configs/latest.json''
      \<and> (case read_config w of Inl e \<Rightarrow> False | Inr config \<Rightarrow> True)
      \<and> truthy (dict_get_none (persisted_llm_config w) ''api_token'')
      \<and> dict_get_none (persisted_llm_config w) ''llm_provider'' = Some ''azure'')"

definition enterprise_step :: "world \<Rightarrow> event list \<Rightarrow> (exn + embeddings) \<times> event list" where
  "enterprise_step w tr = azure_embeddings w tr (persisted_llm_config w)"

definition local_step :: "world \<Rightarrow> event list \<Rightarrow> (exn + embeddings) \<times> event list" where
  "local_step w tr =
     construct w tr (Construct_embeddings (HuggingFaceEmbeddings DEFAULT_EMBEDDING_MODEL))
       (HuggingFaceEmbeddings DEFAULT_EMBEDDING_MODEL)"

definition hosted_step :: "world \<Rightarrow> event list \<Rightarrow> (exn + embeddings) \<times> event list" where
  "hosted_step w tr =
     construct w tr (Construct_embeddings (OpenAIEmbeddings ''text-embedding-ada-002''))
       (OpenAIEmbeddings ''text-embedding-ada-002'')"

definition embedding_ladder ::
  "world \<Rightarrow> (event list \<Rightarrow> (exn + embeddings) \<times> event list) list" where
  "embedding_ladder w =
     (if azure_configured w then [enterprise_step w] else []) @ [local_step w, hosted_step w]"

section \<open>Example worlds\<close>

text \<open>
  \<open>quiet_world\<close>: no file exists, every library call succeeds, retrieval finds
  nothing. A \<open>text2text-generation\<close> pipeline returns its answer alone, any other
  pipeline returns the prompt followed by its continuation. The random generator hands
  out different numbers on different calls.
\<close>

definition quiet_world :: world where
  "quiet_world =
     \<lparr> path_exists = (\<lambda>p. False),
       read_config = Inl (LibraryError ''No such file or directory''),
       global_config = [],
       cuda_available = False,
       raises = (\<lambda>tr ev. None),
       stored_documents = (\<lambda>p. []),
       get_relevant_documents = (\<lambda>r q. Inr []),
       run_pipeline = (\<lambda>p prompt.
          if task p = ''text2text-generation'' then Inr '' I do not know. ''
          else Inr (prompt @ '' I do not know. '')),
       run_remote = (\<lambda>l prompt. Inr ''I do not know.''),
       validation_message = (\<lambda>v. ''Input should be a valid string''),
       normal_draw = (\<lambda>call i. int call * 1000 + int i) \<rparr>"

text \<open>\<open>configured_world c\<close>: the persisted configuration holds \<open>c\<close> as its \<open>llm_config\<close>.\<close>

definition configured_world :: "string option dict \<Rightarrow> world" where
  "configured_world c =
     quiet_world \<lparr> path_exists := (\<lambda>p. p = ''./configs/latest.json''),
                   read_config := Inr [(''llm_config'', c)] \<rparr>"

text \<open>The configuration of a local model.\<close>

definition local_config :: "string option dict" where
  "local_config =
     [(''llm_provider'', Some ''local''),
      (''llm_model'', Some ''gpt2''),
      (''api_token'', Some [])]"

text \<open>\<open>offline_world\<close>: the local provider is configured, and every library call raises.\<close>

definition offline_world :: world where
  "offline_world =
     configured_world local_config \<lparr> raises := (\<lambda>tr ev. Some ''Connection refused'') \<rparr>"

definition paris :: document where
  "paris = Document ''Paris is the capital of France.'' []"

definition berlin :: document where
  "berlin = Document ''Berlin is the capital of Germany.'' []"

text \<open>
  \<open>ingested_world\<close>: the local provider is configured and an index is persisted at
  \<open>./vectorstore\<close>; retrieval ranks \<open>paris\<close> before \<open>berlin\<close>; the pipelines answer
  with blanks around the answer.
\<close>

definition ingested_world :: world where
  "ingested_world =
     configured_world local_config
       \<lparr> path_exists := (\<lambda>p. p = ''./vectorstore'' \<or> p = ''./configs/latest.json''),
         stored_documents := (\<lambda>p. [berlin, paris]),
         get_relevant_documents := (\<lambda>r q. Inr [paris, berlin]),
         run_pipeline := (\<lambda>p prompt.
            if task p = ''text2text-generation'' then Inr '' Paris.''
            else Inr (prompt @ '' Paris. '')) \<rparr>"

text \<open>
  Worlds with a hosted provider configured. In \<open>hosted_gated_world\<close> the model is the
  gated one and no token is set; in \<open>hosted_token_world\<close> a token is set for a model
  that is not gated; \<open>hosted_down_world\<close> is the latter with a remote API that refuses
  every client, \<open>hosted_offline_world\<close> the latter with every library call raising.
\<close>

definition hosted_gated_world :: world where
  "hosted_gated_world =
     configured_world
       [(''llm_provider'', Some ''hf_free''),
        (''llm_model'', Some ''mistralai/Mixtral-8x7B-Instruct-v0.1''),
        (''api_token'', Some [])]"

definition hosted_token_world :: world where
  "hosted_token_world =
     configured_world
       [(''llm_provider'', Some ''hf_paid''),
        (''llm_model'', Some ''google/flan-t5-large''),
        (''api_token'', Some '' hf_secret '')]"

definition hosted_down_world :: world where
  "hosted_down_world =
     hosted_token_world
       \<lparr> raises := (\<lambda>tr ev. if is_remote_call ev then Some ''401 Unauthorized'' else None) \<rparr>"

definition hosted_offline_world :: world where
  "hosted_offline_world =
     hosted_token_world \<lparr> raises := (\<lambda>tr ev. Some ''Connection refused'') \<rparr>"

text \<open>
  \<open>azure_world\<close>: the enterprise provider is configured with a credential;
  \<open>azure_down_world\<close> is the same with every library call raising.
\<close>

definition azure_world :: world where
  "azure_world =
     configured_world
       [(''llm_provider'', Some ''azure''),
        (''llm_model'', Some ''gpt-4o''),
        (''api_token'', Some ''key''),
        (''azure_endpoint'', Some ''https://example.openai.azure.com''),
        (''azure_deployment'', Some ''gpt-4o''),
        (''api_version'', Some ''2023-12-01-preview'')]"

definition azure_down_world :: world where
  "azure_down_world = azure_world \<lparr> raises := (\<lambda>tr ev. Some ''Connection refused'') \<rparr>"

text \<open>
  \<open>reconfigured_world\<close>: \<open>ingested_world\<close> after the enterprise provider has been
  saved as the configuration; the enterprise backend answers differently from the
  local pipeline.
\<close>

definition reconfigured_world :: world where
  "reconfigured_world =
     ingested_world
       \<lparr> read_config := read_config azure_world,
         run_remote := (\<lambda>l prompt. Inr ''Lyon.'') \<rparr>"

text \<open>\<open>openai_world\<close>: the configuration names a provider the resolver does not know.\<close>

definition openai_world :: world where
  "openai_world = configured_world [(''llm_provider'', Some ''openai'')]"

text \<open>The unfolding rules that evaluate the model on a concrete world.\<close>

lemmas string_defs = strip_def isspace_def lower_def lower_char_def quoted_def
  no_attribute_def

lemmas world_defs = quiet_world_def offline_world_def configured_world_def local_config_def
  ingested_world_def hosted_gated_world_def hosted_token_world_def hosted_down_world_def
  hosted_offline_world_def azure_world_def azure_down_world_def reconfigured_world_def
  openai_world_def paris_def berlin_def

lemmas config_defs = dict_get_def dict_get_none_def latest_config_def config_to_use_def
  provider_of_def model_of_def token_of_def persisted_llm_config_def azure_configured_def

lemmas resolver_defs = construct_def set_environ_def and_then_def new_pipeline_def
  fallback_llm_def fallback_model_def construct_fallback_def get_llm_local_def
  get_llm_hf_def get_llm_azure_def get_llm_def azure_embeddings_def
  embeddings_from_config_def default_embeddings_def get_embeddings_def
  DEFAULT_EMBEDDING_MODEL_def

lemmas endpoint_defs = load_vectorstore_def get_retriever_def create_rag_chain_def
  llm_invoke_def HFWrapper_call_def invoke_def extract_answer_def query_def rag_def
  serve_query_def serve_rag_def new_events_def

section \<open>Strings: occurrences and pieces\<close>

lemma contains_iff: "contains sub s \<longleftrightarrow> (\<exists>a b. s = a @ sub @ b)"
proof (induction s)
  case Nil
  then show ?case by auto
next
  case (Cons c cs)
  show ?case
  proof
    assume "contains sub (c # cs)"
    then consider "prefix sub (c # cs)" | "contains sub cs" by auto
    then show "\<exists>a b. c # cs = a @ sub @ b"
    proof cases
      case 1
      then obtain b where "c # cs = sub @ b" by (auto simp: prefix_def)
      then have "c # cs = [] @ sub @ b" by simp
      then show ?thesis by blast
    next
      case 2
      with Cons.IH obtain a b where "cs = a @ sub @ b" by blast
      then have "c # cs = (c # a) @ sub @ b" by simp
      then show ?thesis by blast
    qed
  next
    assume "\<exists>a b. c # cs = a @ sub @ b"
    then obtain a b where ab: "c # cs = a @ sub @ b" by blast
    show "contains sub (c # cs)"
    proof (cases a)
      case Nil
      with ab have "prefix sub (c # cs)" by (simp add: prefix_def)
      then show ?thesis by simp
    next
      case (Cons x a')
      with ab have "cs = a' @ sub @ b" by simp
      with Cons.IH have "contains sub cs" by blast
      then show ?thesis by simp
    qed
  qed
qed

text \<open>\<open>split\<close> never returns an empty list, so its last piece exists.\<close>

lemma split_py_nonempty: "split_py sep s \<noteq> []"
  by (induction sep s rule: split_py.induct) (auto split: list.splits)

lemma split_py_no_sep:
  "sep \<noteq> [] \<Longrightarrow> \<not> contains sep s \<Longrightarrow> split_py sep s = [s]"
  by (induction s) (auto split: list.splits)

lemma split_py_single:
  "sep \<noteq> [] \<Longrightarrow> length (split_py sep s) = 1 \<Longrightarrow> \<not> contains sep s"
proof (induction sep s rule: split_py.induct)
  case (1 sep)
  then show ?case by simp
next
  case (2 sep c cs)
  show ?case
  proof (cases "prefix sep (c # cs)")
    case True
    with 2 show ?thesis
      using split_py_nonempty[of sep "drop (length sep) (c # cs)"] by auto
  next
    case False
    with 2 show ?thesis
      using split_py_nonempty[of sep cs] by (auto split: list.splits)
  qed
qed

text \<open>The last piece holds no occurrence of the separator.\<close>

lemma last_split_py_clean:
  "sep \<noteq> [] \<Longrightarrow> \<not> contains sep (last (split_py sep s))"
proof (induction sep s rule: split_py.induct)
  case (1 sep)
  then show ?case by simp
next
  case (2 sep c cs)
  show ?case
  proof (cases "prefix sep (c # cs)")
    case True
    with 2 show ?thesis by (simp add: split_py_nonempty)
  next
    case False
    obtain p ps where pps: "split_py sep cs = p # ps"
      using split_py_nonempty[of sep cs] by (cases "split_py sep cs") auto
    show ?thesis
    proof (cases ps)
      case Nil
      with pps have "length (split_py sep cs) = 1" by simp
      with 2 have nc: "\<not> contains sep cs" using split_py_single by blast
      with 2 have "split_py sep cs = [cs]" using split_py_no_sep by blast
      with pps Nil have "p = cs" by simp
      with False 2 pps Nil nc show ?thesis by simp
    next
      case (Cons q qs)
      with False 2 pps show ?thesis by simp
    qed
  qed
qed

text \<open>When the separator occurs, the last piece is what follows one of its occurrences.\<close>

lemma last_split_py_suffix:
  "sep \<noteq> [] \<Longrightarrow> contains sep s \<Longrightarrow> \<exists>pre. s = pre @ sep @ last (split_py sep s)"
proof (induction sep s rule: split_py.induct)
  case (1 sep)
  then show ?case by simp
next
  case (2 sep c cs)
  show ?case
  proof (cases "prefix sep (c # cs)")
    case True
    then obtain rest where rest: "c # cs = sep @ rest" by (auto simp: prefix_def)
    then have dr: "drop (length sep) (c # cs) = rest" by (metis append_eq_conv_conj)
    show ?thesis
    proof (cases "contains sep rest")
      case True
      with 2 \<open>prefix sep (c # cs)\<close> dr
      obtain pre where "rest = pre @ sep @ last (split_py sep rest)" by auto
      with rest have "c # cs = (sep @ pre) @ sep @ last (split_py sep rest)" by simp
      moreover have "last (split_py sep (c # cs)) = last (split_py sep rest)"
        using 2 \<open>prefix sep (c # cs)\<close> dr by (simp add: split_py_nonempty)
      ultimately show ?thesis by metis
    next
      case False
      with 2 have "split_py sep rest = [rest]" using split_py_no_sep by blast
      then have "last (split_py sep (c # cs)) = rest"
        using 2 \<open>prefix sep (c # cs)\<close> dr by simp
      with rest have "c # cs = [] @ sep @ last (split_py sep (c # cs))" by simp
      then show ?thesis by blast
    qed
  next
    case False
    with 2 have cs: "contains sep cs" by simp
    with 2 False obtain pre where pre: "cs = pre @ sep @ last (split_py sep cs)" by auto
    obtain p ps where pps: "split_py sep cs = p # ps"
      using split_py_nonempty[of sep cs] by (cases "split_py sep cs") auto
    have "ps \<noteq> []"
    proof
      assume "ps = []"
      with pps have "length (split_py sep cs) = 1" by simp
      with 2 cs show False using split_py_single by blast
    qed
    with pps False have "last (split_py sep (c # cs)) = last (split_py sep cs)" by simp
    with pre have "c # cs = (c # pre) @ sep @ last (split_py sep (c # cs))" by simp
    then show ?thesis by blast
  qed
qed

text \<open>
  A separator whose first character does not occur in it again cannot overlap itself:
  an occurrence that starts later than another one starts behind its end.
\<close>

lemma no_overlap:
  assumes eq: "a @ m @ b = m @ r" and ne: "a \<noteq> []" and m: "m \<noteq> []"
    and border: "\<forall>i. 0 < i \<and> i < length m \<longrightarrow> m ! i \<noteq> m ! 0"
  shows "\<exists>a'. a = m @ a'"
proof -
  have len: "length m \<le> length a"
  proof (rule ccontr)
    assume "\<not> length m \<le> length a"
    then have lt: "length a < length m" by simp
    from ne have pos: "0 < length a" by simp
    have "(a @ m @ b) ! length a = (m @ b) ! 0"
      using nth_append_length_plus[of a "m @ b" 0] by simp
    also have "\<dots> = m ! 0" using m by (simp add: nth_append)
    finally have l: "(a @ m @ b) ! length a = m ! 0" .
    have "(m @ r) ! length a = m ! length a"
      using lt by (rule nth_append_left)
    with l eq have "m ! length a = m ! 0" by simp
    with border pos lt show False by blast
  qed
  from eq have "take (length m) (a @ m @ b) = take (length m) (m @ r)" by simp
  with len have "take (length m) a = m" by simp
  then have "a = m @ drop (length m) a" by (metis append_take_drop_id)
  then show ?thesis by blast
qed

lemma rightmost_occurrence:
  assumes raw: "raw = pre @ m @ r" and clean: "\<not> contains m r"
    and occ: "raw = a @ m @ b" and m: "m \<noteq> []"
    and border: "\<forall>i. 0 < i \<and> i < length m \<longrightarrow> m ! i \<noteq> m ! 0"
  shows "length a \<le> length pre"
proof (rule ccontr)
  assume "\<not> length a \<le> length pre"
  then have lt: "length pre < length a" by simp
  from raw occ have "pre @ (m @ r) = a @ (m @ b)" by simp
  then obtain us where us: "a = pre @ us" "m @ r = us @ m @ b"
    using lt by (auto simp: append_eq_append_conv2)
  with lt have "us \<noteq> []" by auto
  with us(2) obtain a' where "us = m @ a'"
    using no_overlap[of us m b r] m border by auto
  with us(2) have "r = a' @ m @ b" by simp
  then have "contains m r" unfolding contains_iff by blast
  with clean show False by simp
qed

lemma marker_border:
  "\<forall>i. 0 < i \<and> i < length ''Answer:'' \<longrightarrow> ''Answer:'' ! i \<noteq> ''Answer:'' ! 0"
proof (intro allI impI)
  fix i :: nat
  assume "0 < i \<and> i < length ''Answer:''"
  then have "i = 1 \<or> i = 2 \<or> i = 3 \<or> i = 4 \<or> i = 5 \<or> i = 6" by auto
  then show "''Answer:'' ! i \<noteq> ''Answer:'' ! 0" by (elim disjE) simp_all
qed

section \<open>The answer extractor\<close>

text \<open>
  Claim C3, as the code has it. When the raw output contains the marker \<open>Answer:\<close>, the
  extractor returns what follows the last occurrence of the marker, stripped of
  surrounding whitespace: the raw output is \<open>pre @ ''Answer:'' @ rest\<close>, no occurrence
  of the marker starts behind \<open>pre\<close>, and the result is \<open>strip rest\<close>. When the raw
  output does not contain the marker, it is returned as it is, not stripped.
\<close>

theorem extract_answer_spec:
  "((\<exists>a b. raw = a @ ''Answer:'' @ b) \<longrightarrow>
      (\<exists>pre rest. raw = pre @ ''Answer:'' @ rest
         \<and> (\<forall>a b. raw = a @ ''Answer:'' @ b \<longrightarrow> length a \<le> length pre)
         \<and> extract_answer raw = strip rest))
   \<and> (\<not> (\<exists>a b. raw = a @ ''Answer:'' @ b) \<longrightarrow> extract_answer raw = raw)"
proof (intro conjI impI)
  assume "\<exists>a b. raw = a @ ''Answer:'' @ b"
  then have c: "contains ''Answer:'' raw" unfolding contains_iff .
  let ?r = "last (split_py ''Answer:'' raw)"
  from c obtain pre where pre: "raw = pre @ ''Answer:'' @ ?r"
    using last_split_py_suffix[of "''Answer:''" raw] by auto
  have clean: "\<not> contains ''Answer:'' ?r"
    using last_split_py_clean[of "''Answer:''" raw] by simp
  have "\<forall>a b. raw = a @ ''Answer:'' @ b \<longrightarrow> length a \<le> length pre"
    using rightmost_occurrence[OF pre clean _ _ marker_border] by blast
  moreover have "extract_answer raw = strip ?r" using c by (simp add: extract_answer_def)
  ultimately show "\<exists>pre rest. raw = pre @ ''Answer:'' @ rest
         \<and> (\<forall>a b. raw = a @ ''Answer:'' @ b \<longrightarrow> length a \<le> length pre)
         \<and> extract_answer raw = strip rest" using pre by blast
next
  assume "\<not> (\<exists>a b. raw = a @ ''Answer:'' @ b)"
  then have "\<not> contains ''Answer:'' raw" unfolding contains_iff .
  then show "extract_answer raw = raw" by (simp add: extract_answer_def)
qed

text \<open>
  The two examples of the specification's test list, with a blank around the second:
  the marker is found in the first, and the second comes back with its blanks.
\<close>

theorem extract_answer_spec_witness:
  "(\<exists>a b. ''Context...\<newline>Answer: Paris.'' = a @ ''Answer:'' @ b)
   \<and> extract_answer ''Context...\<newline>Answer: Paris.'' = ''Paris.''
   \<and> \<not> (\<exists>a b. '' Paris. '' = a @ ''Answer:'' @ b)
   \<and> extract_answer '' Paris. '' = '' Paris. ''"
proof -
  have h1: "\<exists>a b. ''Context...\<newline>Answer: Paris.'' = a @ ''Answer:'' @ b"
    unfolding contains_iff[symmetric] by simp
  have h2: "\<not> (\<exists>a b. '' Paris. '' = a @ ''Answer:'' @ b)"
    unfolding contains_iff[symmetric] by simp
  have e1: "extract_answer ''Context...\<newline>Answer: Paris.'' = ''Paris.''"
    by (simp add: extract_answer_def strip_def isspace_def)
  from extract_answer_spec[of "'' Paris. ''"] h2
  have e2: "extract_answer '' Paris. '' = '' Paris. ''" by blast
  from h1 e1 h2 e2 show ?thesis by blast
qed

text \<open>
  The claim as it was stated asks for the stripped raw output when the marker is absent.
  The code returns the raw output with its blanks.
\<close>

theorem extract_answer_untrimmed_counterexample:
  "extract_answer '' Paris. '' \<noteq> strip '' Paris. ''"
  by (simp add: extract_answer_def strip_def isspace_def)

section \<open>The wrapper around a local pipeline\<close>

text \<open>
  Claim C8, as the code has it. When the pipeline returns the prompt followed by a
  continuation, the wrapper without \<open>is_t5\<close> returns the continuation stripped of
  surrounding whitespace; with \<open>is_t5\<close> the wrapper returns the whole generated text,
  stripped of surrounding whitespace.
\<close>

theorem HFWrapper_call_spec:
  "run_pipeline w pipe prompt = Inr result \<Longrightarrow>
     (result = prompt @ continuation \<longrightarrow>
        HFWrapper_call w pipe False prompt = Inr (strip continuation))
     \<and> HFWrapper_call w pipe True prompt = Inr (strip result)"
  by (simp add: HFWrapper_call_def)

theorem HFWrapper_call_spec_witness:
  "run_pipeline quiet_world (new_pipeline quiet_world ''text-generation'' (Some ''gpt2'')) ''Q''
     = Inr (''Q'' @ '' I do not know. '')
   \<and> HFWrapper_call quiet_world (new_pipeline quiet_world ''text-generation'' (Some ''gpt2''))
        False ''Q'' = Inr ''I do not know.''
   \<and> run_pipeline quiet_world
        (new_pipeline quiet_world ''text2text-generation'' (Some fallback_model)) ''Q''
     = Inr '' I do not know. ''
   \<and> HFWrapper_call quiet_world
        (new_pipeline quiet_world ''text2text-generation'' (Some fallback_model)) True ''Q''
     = Inr ''I do not know.''"
proof -
  have h1: "run_pipeline quiet_world (new_pipeline quiet_world ''text-generation'' (Some ''gpt2''))
             ''Q'' = Inr (''Q'' @ '' I do not know. '')"
    by (simp add: quiet_world_def new_pipeline_def)
  have h2: "run_pipeline quiet_world
              (new_pipeline quiet_world ''text2text-generation'' (Some fallback_model)) ''Q''
            = Inr '' I do not know. ''"
    by (simp add: quiet_world_def new_pipeline_def)
  from HFWrapper_call_spec[OF h1, of "'' I do not know. ''"]
  have a1: "HFWrapper_call quiet_world (new_pipeline quiet_world ''text-generation'' (Some ''gpt2''))
        False ''Q'' = Inr ''I do not know.''"
    by (simp add: strip_def isspace_def)
  from HFWrapper_call_spec[OF h2, of "[]"]
  have a2: "HFWrapper_call quiet_world
        (new_pipeline quiet_world ''text2text-generation'' (Some fallback_model)) True ''Q''
     = Inr ''I do not know.''"
    by (simp add: strip_def isspace_def)
  from h1 a1 h2 a2 show ?thesis by blast
qed

text \<open>
  The claim as it was stated asks for the direct answer verbatim. The code strips it:
  the pipeline of \<open>ingested_world\<close> answers with a leading blank, which the wrapper
  removes.
\<close>

theorem HFWrapper_call_verbatim_counterexample:
  "HFWrapper_call ingested_world
     (new_pipeline ingested_world ''text2text-generation'' (Some fallback_model)) True ''Q''
   \<noteq> run_pipeline ingested_world
        (new_pipeline ingested_world ''text2text-generation'' (Some fallback_model)) ''Q''"
  by (simp add: HFWrapper_call_def world_defs new_pipeline_def strip_def isspace_def)

section \<open>The generation-backend resolver\<close>

text \<open>
  Claim C9. When the provider is none of \<open>local\<close>, \<open>hf_free\<close>, \<open>hf_paid\<close> and
  \<open>azure\<close>, \<open>get_llm\<close> raises an \<open>HTTPException\<close> with status 400 whose detail
  names the provider, and it has made no call: the trace is the one it started from, so
  no backend was constructed in its place.
\<close>

theorem get_llm_unsupported_provider:
  "provider_of w \<notin> {Some ''local'', Some ''hf_free'', Some ''hf_paid'', Some ''azure''} \<Longrightarrow>
     get_llm w tr
       = (Inl (HTTPException 400 (''Unsupported LLM provider: '' @ str_opt (provider_of w))), tr)"
  by (simp add: get_llm_def)

theorem get_llm_unsupported_provider_witness:
  "provider_of openai_world
     \<notin> {Some ''local'', Some ''hf_free'', Some ''hf_paid'', Some ''azure''}
   \<and> get_llm openai_world []
       = (Inl (HTTPException 400 ''Unsupported LLM provider: openai''), [])"
proof -
  have p: "provider_of openai_world = Some ''openai''"
    by (simp add: world_defs config_defs)
  then have h: "provider_of openai_world
     \<notin> {Some ''local'', Some ''hf_free'', Some ''hf_paid'', Some ''azure''}" by simp
  from get_llm_unsupported_provider[OF h, of "[]"] h p show ?thesis by simp
qed

text \<open>
  Claim C4. Let the provider be \<open>hf_free\<close> or \<open>hf_paid\<close>. The safe default is the
  local wrapper, with \<open>is_t5\<close> set, around the \<open>text2text-generation\<close> pipeline of
  \<open>google/flan-t5-base\<close>.
  When no token is set or the model is the gated
  \<open>mistralai/Mixtral-8x7B-Instruct-v0.1\<close>, the resolver makes no remote call, the
  first thing it does is to construct the pipeline of the safe default, and when that
  construction succeeds the safe default is the result.
  When a token is set and the model is not the gated one, the first thing the resolver
  does is to construct the remote client; when that succeeds the client is the result,
  and when it raises, the next and only other call is the construction of the pipeline
  of the same safe default, whose success makes the safe default the result.
\<close>

theorem get_llm_hosted_ladder:
  fixes w :: world and tr :: "event list"
  defines "fb_pipe \<equiv> Pipeline ''text2text-generation'' (Some ''google/flan-t5-base'')
                        (if cuda_available w then 0 else - 1)
                        (if cuda_available w then Float16 else Float32) 512"
    and "hub \<equiv> HuggingFaceHub (model_of w) (token_of w)"
  assumes hosted: "provider_of w \<in> {Some ''hf_free'', Some ''hf_paid''}"
  shows
  "(\<not> truthy (token_of w) \<or> model_of w = Some ''mistralai/Mixtral-8x7B-Instruct-v0.1'' \<longrightarrow>
      \<not> list_ex is_remote_call (new_events tr (snd (get_llm w tr)))
      \<and> take 1 (new_events tr (snd (get_llm w tr))) = [Construct_pipeline fb_pipe]
      \<and> (raises w tr (Construct_pipeline fb_pipe) = None
           \<longrightarrow> get_llm w tr = (Inr (HFWrapper fb_pipe True), tr @ [Construct_pipeline fb_pipe])))
   \<and> (truthy (token_of w) \<and> model_of w \<noteq> Some ''mistralai/Mixtral-8x7B-Instruct-v0.1'' \<longrightarrow>
      take 1 (new_events tr (snd (get_llm w tr))) = [Construct_llm hub]
      \<and> (raises w tr (Construct_llm hub) = None
           \<longrightarrow> get_llm w tr = (Inr hub, tr @ [Construct_llm hub]))
      \<and> (raises w tr (Construct_llm hub) \<noteq> None
           \<longrightarrow> new_events tr (snd (get_llm w tr)) = [Construct_llm hub, Construct_pipeline fb_pipe]
             \<and> (raises w (tr @ [Construct_llm hub]) (Construct_pipeline fb_pipe) = None
                 \<longrightarrow> get_llm w tr
                      = (Inr (HFWrapper fb_pipe True),
                         tr @ [Construct_llm hub, Construct_pipeline fb_pipe]))))"
proof -
  from hosted have nl: "provider_of w \<noteq> Some ''local''" by auto
  have g: "get_llm w tr = get_llm_hf w tr (model_of w) (token_of w)"
    using hosted nl by (simp add: get_llm_def)
  have fb: "construct_fallback w t
              = construct w t (Construct_pipeline fb_pipe) (HFWrapper fb_pipe True)" for t
    by (simp add: construct_fallback_def fallback_llm_def new_pipeline_def fallback_model_def
          fb_pipe_def)
  show ?thesis
    unfolding g get_llm_hf_def fb hub_def[symmetric]
    by (auto simp: construct_def new_events_def split: option.splits)
qed

text \<open>
  Three runs: the gated model without a token gives the safe default after one local
  construction; a token for a model that is not gated gives the remote client; a
  remote client that is refused gives the safe default after the remote call.
\<close>

theorem get_llm_hosted_ladder_witness:
  "provider_of hosted_gated_world = Some ''hf_free''
   \<and> token_of hosted_gated_world = Some []
   \<and> model_of hosted_gated_world = Some ''mistralai/Mixtral-8x7B-Instruct-v0.1''
   \<and> get_llm hosted_gated_world []
       = (Inr (HFWrapper
                 (Pipeline ''text2text-generation'' (Some ''google/flan-t5-base'') (- 1) Float32 512)
                 True),
          [Construct_pipeline
             (Pipeline ''text2text-generation'' (Some ''google/flan-t5-base'') (- 1) Float32 512)])
   \<and> provider_of hosted_token_world = Some ''hf_paid''
   \<and> token_of hosted_token_world = Some ''hf_secret''
   \<and> model_of hosted_token_world = Some ''google/flan-t5-large''
   \<and> get_llm hosted_token_world []
       = (Inr (HuggingFaceHub (Some ''google/flan-t5-large'') (Some ''hf_secret'')),
          [Construct_llm (HuggingFaceHub (Some ''google/flan-t5-large'') (Some ''hf_secret''))])
   \<and> provider_of hosted_down_world = Some ''hf_paid''
   \<and> token_of hosted_down_world = Some ''hf_secret''
   \<and> model_of hosted_down_world = Some ''google/flan-t5-large''
   \<and> get_llm hosted_down_world []
       = (Inr (HFWrapper
                 (Pipeline ''text2text-generation'' (Some ''google/flan-t5-base'') (- 1) Float32 512)
                 True),
          [Construct_llm (HuggingFaceHub (Some ''google/flan-t5-large'') (Some ''hf_secret'')),
           Construct_pipeline
             (Pipeline ''text2text-generation'' (Some ''google/flan-t5-base'') (- 1) Float32 512)])"
proof -
  have p1: "provider_of hosted_gated_world = Some ''hf_free''"
    and t1: "token_of hosted_gated_world = Some []"
    and m1: "model_of hosted_gated_world = Some ''mistralai/Mixtral-8x7B-Instruct-v0.1''"
    and c1: "\<not> cuda_available hosted_gated_world"
    and r1: "raises hosted_gated_world = (\<lambda>tr ev. None)"
    by (simp_all add: world_defs config_defs string_defs)
  have p2: "provider_of hosted_token_world = Some ''hf_paid''"
    and t2: "token_of hosted_token_world = Some ''hf_secret''"
    and m2: "model_of hosted_token_world = Some ''google/flan-t5-large''"
    and c2: "\<not> cuda_available hosted_token_world"
    and r2: "raises hosted_token_world = (\<lambda>tr ev. None)"
    by (simp_all add: world_defs config_defs string_defs)
  have p3: "provider_of hosted_down_world = Some ''hf_paid''"
    and t3: "token_of hosted_down_world = Some ''hf_secret''"
    and m3: "model_of hosted_down_world = Some ''google/flan-t5-large''"
    and c3: "\<not> cuda_available hosted_down_world"
    and r3: "raises hosted_down_world
               = (\<lambda>tr ev. if is_remote_call ev then Some ''401 Unauthorized'' else None)"
    by (simp_all add: world_defs config_defs string_defs)
  from p1 have h1: "provider_of hosted_gated_world \<in> {Some ''hf_free'', Some ''hf_paid''}"
    by simp
  from p2 have h2: "provider_of hosted_token_world \<in> {Some ''hf_free'', Some ''hf_paid''}"
    by simp
  from p3 have h3: "provider_of hosted_down_world \<in> {Some ''hf_free'', Some ''hf_paid''}"
    by simp
  from get_llm_hosted_ladder[OF h1, of "[]"]
  have a1: "get_llm hosted_gated_world []
       = (Inr (HFWrapper
                 (Pipeline ''text2text-generation'' (Some ''google/flan-t5-base'') (- 1) Float32 512)
                 True),
          [Construct_pipeline
             (Pipeline ''text2text-generation'' (Some ''google/flan-t5-base'') (- 1) Float32 512)])"
    by (simp add: t1 m1 c1 r1)
  from get_llm_hosted_ladder[OF h2, of "[]"]
  have a2: "get_llm hosted_token_world []
       = (Inr (HuggingFaceHub (Some ''google/flan-t5-large'') (Some ''hf_secret'')),
          [Construct_llm (HuggingFaceHub (Some ''google/flan-t5-large'') (Some ''hf_secret''))])"
    by (simp add: t2 m2 c2 r2)
  from get_llm_hosted_ladder[OF h3, of "[]"]
  have a3: "get_llm hosted_down_world []
       = (Inr (HFWrapper
                 (Pipeline ''text2text-generation'' (Some ''google/flan-t5-base'') (- 1) Float32 512)
                 True),
          [Construct_llm (HuggingFaceHub (Some ''google/flan-t5-large'') (Some ''hf_secret'')),
           Construct_pipeline
             (Pipeline ''text2text-generation'' (Some ''google/flan-t5-base'') (- 1) Float32 512)])"
    by (simp add: t3 m3 c3 r3)
  from p1 t1 m1 a1 p2 t2 m2 a2 p3 t3 m3 a3 show ?thesis by blast
qed

text \<open>
  Claim C2, as the code has it.
  For the provider \<open>local\<close> there is no fallback: a failing construction of the
  pipeline makes \<open>get_llm\<close> raise an \<open>HTTPException\<close> 500 "Error loading local
  model", a successful one gives the wrapper around that pipeline, and every exception
  of this branch is of that form.
  For \<open>hf_free\<close> and \<open>hf_paid\<close>, the first construction is that of the remote
  client, or of the fallback pipeline when no token is set or the model is the gated
  one. When it succeeds its backend is the result. When it raises, the fallback
  pipeline is constructed: its success gives the fallback backend, and its failure
  makes \<open>get_llm\<close> raise an \<open>HTTPException\<close> 500 "Error loading fallback model".
  For \<open>azure\<close>, the environment is set and the enterprise client is constructed:
  its success gives the client, and its failure makes \<open>get_llm\<close> raise an
  \<open>HTTPException\<close> 500 "Error loading Azure OpenAI model" that carries the message
  of the failure; a token, version or endpoint that is \<open>None\<close> raises the same
  exception before any construction.
\<close>

theorem get_llm_failure_modes:
  fixes w :: world and tr :: "event list"
  defines "local_pipe \<equiv> Pipeline ''text-generation'' (model_of w)
                            (if cuda_available w then 0 else - 1)
                            (if cuda_available w then Float16 else Float32) 512"
    and "fb_pipe \<equiv> Pipeline ''text2text-generation'' (Some ''google/flan-t5-base'')
                        (if cuda_available w then 0 else - 1)
                        (if cuda_available w then Float16 else Float32) 512"
    and "hub \<equiv> HuggingFaceHub (model_of w) (token_of w)"
  defines "first_call \<equiv>
           (if \<not> truthy (token_of w) \<or> model_of w = Some ''mistralai/Mixtral-8x7B-Instruct-v0.1''
            then Construct_pipeline fb_pipe else Construct_llm hub)"
  defines "first_backend \<equiv>
           (if \<not> truthy (token_of w) \<or> model_of w = Some ''mistralai/Mixtral-8x7B-Instruct-v0.1''
            then HFWrapper fb_pipe True else hub)"
    and "azure \<equiv> AzureOpenAI (dict_get_none (config_to_use w) ''azure_deployment'') (model_of w)"
    and "api_version \<equiv> dict_get (config_to_use w) ''api_version'' (Some ''2024-05-01-preview'')"
    and "azure_endpoint \<equiv> dict_get (config_to_use w) ''azure_endpoint'' (Some [])"
  shows
  "(provider_of w = Some ''local'' \<longrightarrow>
      (\<forall>m. raises w tr (Construct_pipeline local_pipe) = Some m \<longrightarrow>
         get_llm w tr
           = (Inl (HTTPException 500 (''Error loading local model: '' @ m)),
              tr @ [Construct_pipeline local_pipe]))
      \<and> (\<forall>mdl. raises w tr (Construct_pipeline local_pipe) = None \<and> model_of w = Some mdl \<longrightarrow>
           get_llm w tr
             = (Inr (HFWrapper local_pipe (contains ''t5'' (lower mdl))),
                tr @ [Construct_pipeline local_pipe]))
      \<and> (\<forall>e. fst (get_llm w tr) = Inl e \<longrightarrow>
           (\<exists>m. e = HTTPException 500 (''Error loading local model: '' @ m))))
   \<and> (provider_of w \<in> {Some ''hf_free'', Some ''hf_paid''} \<longrightarrow>
      (raises w tr first_call = None \<longrightarrow>
         get_llm w tr = (Inr first_backend, tr @ [first_call]))
      \<and> (raises w tr first_call \<noteq> None
           \<and> raises w (tr @ [first_call]) (Construct_pipeline fb_pipe) = None \<longrightarrow>
           get_llm w tr
             = (Inr (HFWrapper fb_pipe True), tr @ [first_call, Construct_pipeline fb_pipe]))
      \<and> (\<forall>m. raises w tr first_call \<noteq> None
           \<and> raises w (tr @ [first_call]) (Construct_pipeline fb_pipe) = Some m \<longrightarrow>
           get_llm w tr
             = (Inl (HTTPException 500 (''Error loading fallback model: '' @ m)),
                tr @ [first_call, Construct_pipeline fb_pipe])))
   \<and> (provider_of w = Some ''azure'' \<longrightarrow>
      (\<forall>t v e m.
         token_of w = Some t \<and> api_version = Some v \<and> azure_endpoint = Some e
         \<and> raises w (tr @ [SetEnv ''OPENAI_API_KEY'' t, SetEnv ''OPENAI_API_VERSION'' v,
                            SetEnv ''OPENAI_API_BASE'' e, SetEnv ''OPENAI_API_TYPE'' ''azure''])
              (Construct_llm azure) = Some m \<longrightarrow>
         get_llm w tr
           = (Inl (HTTPException 500 (''Error loading Azure OpenAI model: '' @ m)),
              tr @ [SetEnv ''OPENAI_API_KEY'' t, SetEnv ''OPENAI_API_VERSION'' v,
                    SetEnv ''OPENAI_API_BASE'' e, SetEnv ''OPENAI_API_TYPE'' ''azure'',
                    Construct_llm azure]))
      \<and> (\<forall>t v e.
           token_of w = Some t \<and> api_version = Some v \<and> azure_endpoint = Some e
           \<and> raises w (tr @ [SetEnv ''OPENAI_API_KEY'' t, SetEnv ''OPENAI_API_VERSION'' v,
                              SetEnv ''OPENAI_API_BASE'' e, SetEnv ''OPENAI_API_TYPE'' ''azure''])
                (Construct_llm azure) = None \<longrightarrow>
           get_llm w tr
             = (Inr azure,
                tr @ [SetEnv ''OPENAI_API_KEY'' t, SetEnv ''OPENAI_API_VERSION'' v,
                      SetEnv ''OPENAI_API_BASE'' e, SetEnv ''OPENAI_API_TYPE'' ''azure'',
                      Construct_llm azure]))
      \<and> (token_of w = None \<or> api_version = None \<or> azure_endpoint = None \<longrightarrow>
           fst (get_llm w tr)
             = Inl (HTTPException 500
                      ''Error loading Azure OpenAI model: str expected, not NoneType'')))"
proof -
  have fb: "construct_fallback w t
              = construct w t (Construct_pipeline fb_pipe) (HFWrapper fb_pipe True)" for t
    by (simp add: construct_fallback_def fallback_llm_def new_pipeline_def fallback_model_def
          fb_pipe_def)
  have lp: "new_pipeline w ''text-generation'' (model_of w) = local_pipe"
    by (simp add: new_pipeline_def local_pipe_def)
  { assume p: "provider_of w = Some ''local''"
    then have g: "get_llm w tr = get_llm_local w tr (model_of w)" by (simp add: get_llm_def)
    have "(\<forall>m. raises w tr (Construct_pipeline local_pipe) = Some m \<longrightarrow>
         get_llm w tr
           = (Inl (HTTPException 500 (''Error loading local model: '' @ m)),
              tr @ [Construct_pipeline local_pipe]))
      \<and> (\<forall>mdl. raises w tr (Construct_pipeline local_pipe) = None \<and> model_of w = Some mdl \<longrightarrow>
           get_llm w tr
             = (Inr (HFWrapper local_pipe (contains ''t5'' (lower mdl))),
                tr @ [Construct_pipeline local_pipe]))
      \<and> (\<forall>e. fst (get_llm w tr) = Inl e \<longrightarrow>
           (\<exists>m. e = HTTPException 500 (''Error loading local model: '' @ m)))"
      unfolding g get_llm_local_def lp
      by (auto simp: construct_def and_then_def split: option.splits) }
  moreover
  { assume p: "provider_of w \<in> {Some ''hf_free'', Some ''hf_paid''}"
    then have nl: "provider_of w \<noteq> Some ''local''" by auto
    have g: "get_llm w tr = get_llm_hf w tr (model_of w) (token_of w)"
      using p nl by (simp add: get_llm_def)
    have "(raises w tr first_call = None \<longrightarrow>
         get_llm w tr = (Inr first_backend, tr @ [first_call]))
      \<and> (raises w tr first_call \<noteq> None
           \<and> raises w (tr @ [first_call]) (Construct_pipeline fb_pipe) = None \<longrightarrow>
           get_llm w tr
             = (Inr (HFWrapper fb_pipe True), tr @ [first_call, Construct_pipeline fb_pipe]))
      \<and> (\<forall>m. raises w tr first_call \<noteq> None
           \<and> raises w (tr @ [first_call]) (Construct_pipeline fb_pipe) = Some m \<longrightarrow>
           get_llm w tr
             = (Inl (HTTPException 500 (''Error loading fallback model: '' @ m)),
                tr @ [first_call, Construct_pipeline fb_pipe]))"
      unfolding g get_llm_hf_def fb hub_def[symmetric] first_call_def first_backend_def
      by (auto simp: construct_def split: option.splits) }
  moreover
  { assume p: "provider_of w = Some ''azure''"
    then have g: "get_llm w tr = get_llm_azure w tr (config_to_use w) (model_of w) (token_of w)"
      by (simp add: get_llm_def)
    have "(\<forall>t v e m.
         token_of w = Some t \<and> api_version = Some v \<and> azure_endpoint = Some e
         \<and> raises w (tr @ [SetEnv ''OPENAI_API_KEY'' t, SetEnv ''OPENAI_API_VERSION'' v,
                            SetEnv ''OPENAI_API_BASE'' e, SetEnv ''OPENAI_API_TYPE'' ''azure''])
              (Construct_llm azure) = Some m \<longrightarrow>
         get_llm w tr
           = (Inl (HTTPException 500 (''Error loading Azure OpenAI model: '' @ m)),
              tr @ [SetEnv ''OPENAI_API_KEY'' t, SetEnv ''OPENAI_API_VERSION'' v,
                    SetEnv ''OPENAI_API_BASE'' e, SetEnv ''OPENAI_API_TYPE'' ''azure'',
                    Construct_llm azure]))
      \<and> (\<forall>t v e.
           token_of w = Some t \<and> api_version = Some v \<and> azure_endpoint = Some e
           \<and> raises w (tr @ [SetEnv ''OPENAI_API_KEY'' t, SetEnv ''OPENAI_API_VERSION'' v,
                              SetEnv ''OPENAI_API_BASE'' e, SetEnv ''OPENAI_API_TYPE'' ''azure''])
                (Construct_llm azure) = None \<longrightarrow>
           get_llm w tr
             = (Inr azure,
                tr @ [SetEnv ''OPENAI_API_KEY'' t, SetEnv ''OPENAI_API_VERSION'' v,
                      SetEnv ''OPENAI_API_BASE'' e, SetEnv ''OPENAI_API_TYPE'' ''azure'',
                      Construct_llm azure]))
      \<and> (token_of w = None \<or> api_version = None \<or> azure_endpoint = None \<longrightarrow>
           fst (get_llm w tr)
             = Inl (HTTPException 500
                      ''Error loading Azure OpenAI model: str expected, not NoneType''))"
      unfolding g get_llm_azure_def api_version_def[symmetric] azure_endpoint_def[symmetric]
        azure_def[symmetric]
      by (auto simp: construct_def set_environ_def and_then_def split: option.splits) }
  ultimately show ?thesis by blast
qed

text \<open>
  Six runs. The local provider with a failing and with a working pipeline; a hosted
  provider whose remote client is refused, which gives the fallback backend, and one
  with every call raising, which raises; the enterprise provider with a failing and
  with a working client.
\<close>

theorem get_llm_failure_modes_witness:
  "provider_of offline_world = Some ''local''
   \<and> get_llm offline_world []
       = (Inl (HTTPException 500 ''Error loading local model: Connection refused''),
          [Construct_pipeline (Pipeline ''text-generation'' (Some ''gpt2'') (- 1) Float32 512)])
   \<and> provider_of ingested_world = Some ''local''
   \<and> get_llm ingested_world []
       = (Inr (HFWrapper (Pipeline ''text-generation'' (Some ''gpt2'') (- 1) Float32 512) False),
          [Construct_pipeline (Pipeline ''text-generation'' (Some ''gpt2'') (- 1) Float32 512)])
   \<and> provider_of hosted_down_world = Some ''hf_paid''
   \<and> get_llm hosted_down_world []
       = (Inr (HFWrapper
                 (Pipeline ''text2text-generation'' (Some ''google/flan-t5-base'') (- 1) Float32 512)
                 True),
          [Construct_llm (HuggingFaceHub (Some ''google/flan-t5-large'') (Some ''hf_secret'')),
           Construct_pipeline
             (Pipeline ''text2text-generation'' (Some ''google/flan-t5-base'') (- 1) Float32 512)])
   \<and> provider_of hosted_offline_world = Some ''hf_paid''
   \<and> get_llm hosted_offline_world []
       = (Inl (HTTPException 500 ''Error loading fallback model: Connection refused''),
          [Construct_llm (HuggingFaceHub (Some ''google/flan-t5-large'') (Some ''hf_secret'')),
           Construct_pipeline
             (Pipeline ''text2text-generation'' (Some ''google/flan-t5-base'') (- 1) Float32 512)])
   \<and> provider_of azure_down_world = Some ''azure''
   \<and> get_llm azure_down_world []
       = (Inl (HTTPException 500 ''Error loading Azure OpenAI model: Connection refused''),
          [SetEnv ''OPENAI_API_KEY'' ''key'',
           SetEnv ''OPENAI_API_VERSION'' ''2023-12-01-preview'',
           SetEnv ''OPENAI_API_BASE'' ''https://example.openai.azure.com'',
           SetEnv ''OPENAI_API_TYPE'' ''azure'',
           Construct_llm (AzureOpenAI (Some ''gpt-4o'') (Some ''gpt-4o''))])
   \<and> provider_of azure_world = Some ''azure''
   \<and> get_llm azure_world []
       = (Inr (AzureOpenAI (Some ''gpt-4o'') (Some ''gpt-4o'')),
          [SetEnv ''OPENAI_API_KEY'' ''key'',
           SetEnv ''OPENAI_API_VERSION'' ''2023-12-01-preview'',
           SetEnv ''OPENAI_API_BASE'' ''https://example.openai.azure.com'',
           SetEnv ''OPENAI_API_TYPE'' ''azure'',
           Construct_llm (AzureOpenAI (Some ''gpt-4o'') (Some ''gpt-4o''))])"
proof -
  have p1: "provider_of offline_world = Some ''local''"
    and m1: "model_of offline_world = Some ''gpt2''"
    and c1: "\<not> cuda_available offline_world"
    and r1: "raises offline_world = (\<lambda>tr ev. Some ''Connection refused'')"
    by (simp_all add: world_defs config_defs string_defs)
  have p2: "provider_of ingested_world = Some ''local''"
    and m2: "model_of ingested_world = Some ''gpt2''"
    and c2: "\<not> cuda_available ingested_world"
    and r2: "raises ingested_world = (\<lambda>tr ev. None)"
    by (simp_all add: world_defs config_defs string_defs)
  have p3: "provider_of hosted_down_world = Some ''hf_paid''"
    and t3: "token_of hosted_down_world = Some ''hf_secret''"
    and m3: "model_of hosted_down_world = Some ''google/flan-t5-large''"
    and c3: "\<not> cuda_available hosted_down_world"
    and r3: "raises hosted_down_world
               = (\<lambda>tr ev. if is_remote_call ev then Some ''401 Unauthorized'' else None)"
    by (simp_all add: world_defs config_defs string_defs)
  have p4: "provider_of hosted_offline_world = Some ''hf_paid''"
    and t4: "token_of hosted_offline_world = Some ''hf_secret''"
    and m4: "model_of hosted_offline_world = Some ''google/flan-t5-large''"
    and c4: "\<not> cuda_available hosted_offline_world"
    and r4: "raises hosted_offline_world = (\<lambda>tr ev. Some ''Connection refused'')"
    by (simp_all add: world_defs config_defs string_defs)
  have p5: "provider_of azure_down_world = Some ''azure''"
    and t5: "token_of azure_down_world = Some ''key''"
    and m5: "model_of azure_down_world = Some ''gpt-4o''"
    and v5: "dict_get (config_to_use azure_down_world) ''api_version''
               (Some ''2024-05-01-preview'') = Some ''2023-12-01-preview''"
    and e5: "dict_get (config_to_use azure_down_world) ''azure_endpoint'' (Some [])
               = Some ''https://example.openai.azure.com''"
    and d5: "dict_get_none (config_to_use azure_down_world) ''azure_deployment'' = Some ''gpt-4o''"
    and r5: "raises azure_down_world = (\<lambda>tr ev. Some ''Connection refused'')"
    by (simp_all add: world_defs config_defs string_defs)
  have p6: "provider_of azure_world = Some ''azure''"
    and t6: "token_of azure_world = Some ''key''"
    and m6: "model_of azure_world = Some ''gpt-4o''"
    and v6: "dict_get (config_to_use azure_world) ''api_version''
               (Some ''2024-05-01-preview'') = Some ''2023-12-01-preview''"
    and e6: "dict_get (config_to_use azure_world) ''azure_endpoint'' (Some [])
               = Some ''https://example.openai.azure.com''"
    and d6: "dict_get_none (config_to_use azure_world) ''azure_deployment'' = Some ''gpt-4o''"
    and r6: "raises azure_world = (\<lambda>tr ev. None)"
    by (simp_all add: world_defs config_defs string_defs)
  from get_llm_failure_modes[of offline_world "[]"]
  have a1: "get_llm offline_world []
       = (Inl (HTTPException 500 ''Error loading local model: Connection refused''),
          [Construct_pipeline (Pipeline ''text-generation'' (Some ''gpt2'') (- 1) Float32 512)])"
    by (simp add: p1 m1 c1 r1)
  from get_llm_failure_modes[of ingested_world "[]"]
  have a2: "get_llm ingested_world []
       = (Inr (HFWrapper (Pipeline ''text-generation'' (Some ''gpt2'') (- 1) Float32 512) False),
          [Construct_pipeline (Pipeline ''text-generation'' (Some ''gpt2'') (- 1) Float32 512)])"
    by (simp add: p2 m2 c2 r2 string_defs)
  from get_llm_failure_modes[of hosted_down_world "[]"]
  have a3: "get_llm hosted_down_world []
       = (Inr (HFWrapper
                 (Pipeline ''text2text-generation'' (Some ''google/flan-t5-base'') (- 1) Float32 512)
                 True),
          [Construct_llm (HuggingFaceHub (Some ''google/flan-t5-large'') (Some ''hf_secret'')),
           Construct_pipeline
             (Pipeline ''text2text-generation'' (Some ''google/flan-t5-base'') (- 1) Float32 512)])"
    by (simp add: p3 t3 m3 c3 r3)
  from get_llm_failure_modes[of hosted_offline_world "[]"]
  have a4: "get_llm hosted_offline_world []
       = (Inl (HTTPException 500 ''Error loading fallback model: Connection refused''),
          [Construct_llm (HuggingFaceHub (Some ''google/flan-t5-large'') (Some ''hf_secret'')),
           Construct_pipeline
             (Pipeline ''text2text-generation'' (Some ''google/flan-t5-base'') (- 1) Float32 512)])"
    by (simp add: p4 t4 m4 c4 r4)
  from get_llm_failure_modes[of azure_down_world "[]"]
  have a5: "get_llm azure_down_world []
       = (Inl (HTTPException 500 ''Error loading Azure OpenAI model: Connection refused''),
          [SetEnv ''OPENAI_API_KEY'' ''key'',
           SetEnv ''OPENAI_API_VERSION'' ''2023-12-01-preview'',
           SetEnv ''OPENAI_API_BASE'' ''https://example.openai.azure.com'',
           SetEnv ''OPENAI_API_TYPE'' ''azure'',
           Construct_llm (AzureOpenAI (Some ''gpt-4o'') (Some ''gpt-4o''))])"
    by (simp add: p5 t5 m5 v5 e5 d5 r5)
  from get_llm_failure_modes[of azure_world "[]"]
  have a6: "get_llm azure_world []
       = (Inr (AzureOpenAI (Some ''gpt-4o'') (Some ''gpt-4o'')),
          [SetEnv ''OPENAI_API_KEY'' ''key'',
           SetEnv ''OPENAI_API_VERSION'' ''2023-12-01-preview'',
           SetEnv ''OPENAI_API_BASE'' ''https://example.openai.azure.com'',
           SetEnv ''OPENAI_API_TYPE'' ''azure'',
           Construct_llm (AzureOpenAI (Some ''gpt-4o'') (Some ''gpt-4o''))])"
    by (simp add: p6 t6 m6 v6 e6 d6 r6)
  from p1 a1 p2 a2 p3 a3 p4 a4 p5 a5 p6 a6 show ?thesis by blast
qed

text \<open>
  The claim as it was stated lets \<open>get_llm\<close> never raise for the provider \<open>local\<close>.
  In \<open>offline_world\<close> no configuration is set, so the provider is \<open>local\<close>, the
  construction of the pipeline raises, and \<open>get_llm\<close> raises.
\<close>

theorem get_llm_local_raises_counterexample:
  "provider_of offline_world = Some ''local''
   \<and> fst (get_llm offline_world [])
       = Inl (HTTPException 500 ''Error loading local model: Connection refused'')"
  by (simp add: world_defs config_defs resolver_defs string_defs)

section \<open>The embedding resolver\<close>

text \<open>
  Claim C7, as the code has it. \<open>get_embeddings\<close> is the fallback ladder over these
  steps, in this order: the enterprise embeddings (on the ladder when the persisted
  configuration names the provider \<open>azure\<close> and holds a credential), the local
  HuggingFace model, the hosted OpenAI embeddings; the last resort is
  \<open>FakeEmbeddings\<close> of size 384. A step is left only when it raised, the first step
  that succeeds gives the result, and the function always returns an embedding
  function. The vectors of the last resort have 384 entries and do not depend on the
  text: they are the numbers that the random generator draws for the call.
\<close>

theorem get_embeddings_ladder:
  "get_embeddings w tr = first_success (embedding_ladder w) (FakeEmbeddings 384) tr
   \<and> length (fake_embed_query w 384 call text) = 384
   \<and> fake_embed_query w 384 call text = fake_embed_query w 384 call text'
   \<and> fake_embed_query w 384 call text = map (normal_draw w call) [0..<384]"
proof -
  have "get_embeddings w tr = first_success (embedding_ladder w) (FakeEmbeddings 384) tr"
  proof (cases "azure_configured w")
    case True
    then show ?thesis
      by (auto simp: get_embeddings_def embeddings_from_config_def default_embeddings_def
            embedding_ladder_def enterprise_step_def local_step_def hosted_step_def
            azure_configured_def persisted_llm_config_def Let_def
            split: sum.splits prod.splits option.splits)
  next
    case False
    then show ?thesis
      by (auto simp: get_embeddings_def embeddings_from_config_def default_embeddings_def
            embedding_ladder_def enterprise_step_def local_step_def hosted_step_def
            azure_configured_def persisted_llm_config_def Let_def
            split: sum.splits prod.splits option.splits)
  qed
  then show ?thesis by (simp add: fake_embed_query_def)
qed

text \<open>
  Four runs of the ladder: the enterprise step succeeds at once; without a
  configuration the local step succeeds; with the local provider configured and every
  call raising, the local and the hosted step are tried and the last resort is
  returned; with the enterprise provider configured and every call raising, all the
  steps are tried in order and the last resort is returned. The vector of the last
  resort has 384 entries, and the second vector asked for starts with the draws of the
  second call.
\<close>

theorem get_embeddings_ladder_witness:
  "get_embeddings azure_world []
     = (AzureOpenAIEmbeddings (Some ''text-embedding-ada-002''),
        [SetEnv ''OPENAI_API_KEY'' ''key'',
         SetEnv ''OPENAI_API_VERSION'' ''2023-12-01-preview'',
         SetEnv ''OPENAI_API_BASE'' ''https://example.openai.azure.com'',
         SetEnv ''OPENAI_API_TYPE'' ''azure'',
         Construct_embeddings (AzureOpenAIEmbeddings (Some ''text-embedding-ada-002''))])
   \<and> get_embeddings quiet_world []
     = (HuggingFaceEmbeddings ''sentence-transformers/all-MiniLM-L6-v2'',
        [Construct_embeddings (HuggingFaceEmbeddings ''sentence-transformers/all-MiniLM-L6-v2'')])
   \<and> get_embeddings offline_world []
     = (FakeEmbeddings 384,
        [Construct_embeddings (HuggingFaceEmbeddings ''sentence-transformers/all-MiniLM-L6-v2''),
         Construct_embeddings (OpenAIEmbeddings ''text-embedding-ada-002'')])
   \<and> get_embeddings azure_down_world []
     = (FakeEmbeddings 384,
        [SetEnv ''OPENAI_API_KEY'' ''key'',
         SetEnv ''OPENAI_API_VERSION'' ''2023-12-01-preview'',
         SetEnv ''OPENAI_API_BASE'' ''https://example.openai.azure.com'',
         SetEnv ''OPENAI_API_TYPE'' ''azure'',
         Construct_embeddings (AzureOpenAIEmbeddings (Some ''text-embedding-ada-002'')),
         Construct_embeddings (AzureOpenAIEmbeddings (Some ''gpt-4o'')),
         Construct_embeddings (HuggingFaceEmbeddings ''sentence-transformers/all-MiniLM-L6-v2''),
         Construct_embeddings (OpenAIEmbeddings ''text-embedding-ada-002'')])
   \<and> length (fake_embed_query offline_world 384 0 ''Where is Paris?'') = 384
   \<and> take 3 (fake_embed_query offline_world 384 1 ''Where is Paris?'') = [1000, 1001, 1002]"
proof -
  have ladder: "get_embeddings w tr = first_success (embedding_ladder w) (FakeEmbeddings 384) tr"
    for w tr
    using get_embeddings_ladder[of w tr] by blast
  have a: "get_embeddings azure_world []
     = (AzureOpenAIEmbeddings (Some ''text-embedding-ada-002''),
        [SetEnv ''OPENAI_API_KEY'' ''key'',
         SetEnv ''OPENAI_API_VERSION'' ''2023-12-01-preview'',
         SetEnv ''OPENAI_API_BASE'' ''https://example.openai.azure.com'',
         SetEnv ''OPENAI_API_TYPE'' ''azure'',
         Construct_embeddings (AzureOpenAIEmbeddings (Some ''text-embedding-ada-002''))])
   \<and> get_embeddings quiet_world []
     = (HuggingFaceEmbeddings ''sentence-transformers/all-MiniLM-L6-v2'',
        [Construct_embeddings (HuggingFaceEmbeddings ''sentence-transformers/all-MiniLM-L6-v2'')])
   \<and> get_embeddings offline_world []
     = (FakeEmbeddings 384,
        [Construct_embeddings (HuggingFaceEmbeddings ''sentence-transformers/all-MiniLM-L6-v2''),
         Construct_embeddings (OpenAIEmbeddings ''text-embedding-ada-002'')])
   \<and> get_embeddings azure_down_world []
     = (FakeEmbeddings 384,
        [SetEnv ''OPENAI_API_KEY'' ''key'',
         SetEnv ''OPENAI_API_VERSION'' ''2023-12-01-preview'',
         SetEnv ''OPENAI_API_BASE'' ''https://example.openai.azure.com'',
         SetEnv ''OPENAI_API_TYPE'' ''azure'',
         Construct_embeddings (AzureOpenAIEmbeddings (Some ''text-embedding-ada-002'')),
         Construct_embeddings (AzureOpenAIEmbeddings (Some ''gpt-4o'')),
         Construct_embeddings (HuggingFaceEmbeddings ''sentence-transformers/all-MiniLM-L6-v2''),
         Construct_embeddings (OpenAIEmbeddings ''text-embedding-ada-002'')])"
    by (simp add: ladder embedding_ladder_def enterprise_step_def local_step_def
          hosted_step_def azure_embeddings_def construct_def set_environ_def and_then_def
          DEFAULT_EMBEDDING_MODEL_def world_defs config_defs)
  have b: "length (fake_embed_query offline_world 384 0 ''Where is Paris?'') = 384"
    using get_embeddings_ladder[of offline_world "[]" 0 "''Where is Paris?''"] by blast
  have "take 3 (fake_embed_query offline_world 384 1 ''Where is Paris?'')
          = map (normal_draw offline_world 1) (take 3 [0..<384])"
    using get_embeddings_ladder[of offline_world "[]" 1 "''Where is Paris?''"]
    by (simp add: take_map)
  also have "take 3 [0..<384] = [0, 1, 2]"
    by (simp add: upt_rec)
  finally have c: "take 3 (fake_embed_query offline_world 384 1 ''Where is Paris?'')
          = [1000, 1001, 1002]"
    by (simp add: world_defs)
  from a b c show ?thesis by blast
qed

text \<open>
  The claim as it was stated calls the last resort deterministic. In \<open>offline_world\<close>
  the resolver returns the last resort, and two calls for the same text give two
  different vectors.
\<close>

theorem fake_embeddings_not_deterministic_counterexample:
  "fst (get_embeddings offline_world []) = FakeEmbeddings 384
   \<and> fake_embed_query offline_world 384 0 ''Where is Paris?''
       \<noteq> fake_embed_query offline_world 384 1 ''Where is Paris?''"
proof -
  have a: "fst (get_embeddings offline_world []) = FakeEmbeddings 384"
    by (simp add: world_defs config_defs resolver_defs)
  have b: "fake_embed_query offline_world 384 0 ''Where is Paris?''
       \<noteq> fake_embed_query offline_world 384 1 ''Where is Paris?''"
  proof
    assume "fake_embed_query offline_world 384 0 ''Where is Paris?''
       = fake_embed_query offline_world 384 1 ''Where is Paris?''"
    then have "fake_embed_query offline_world 384 0 ''Where is Paris?'' ! 0
       = fake_embed_query offline_world 384 1 ''Where is Paris?'' ! 0" by simp
    then show False by (simp add: fake_embed_query_def world_defs)
  qed
  from a b show ?thesis by blast
qed

section \<open>The query endpoint\<close>

text \<open>
  Claim C5. Loading the index at a path that does not exist gives \<open>None\<close> and raises
  nothing. When nothing exists at \<open>./vectorstore\<close>, \<open>get_retriever\<close> gives \<open>None\<close>
  and \<open>query\<close> returns the handled error
  \<open>{"status": "error", "message": "No vector store available. Please ingest documents
  first."}\<close>, whatever the question, the request's options and the chain built at
  load time are. \<open>query\<close> returns a response for every input: the exceptions raised
  inside it are the \<open>Inl\<close> values of the model, and each of them becomes an error
  response.
\<close>

theorem query_without_index:
  "(\<not> path_exists w path \<longrightarrow> load_vectorstore w tr path = (Inr None, tr))
   \<and> (\<not> path_exists w ''./vectorstore'' \<longrightarrow>
        get_retriever w tr = (None, tr)
        \<and> query c w tr request
            = (ErrorResponse ''No vector store available. Please ingest documents first.'', tr)
        \<and> serve_query w_load w request
            = ErrorResponse ''No vector store available. Please ingest documents first.'')"
  by (simp add: load_vectorstore_def get_retriever_def query_def serve_query_def
        split: prod.splits)

theorem query_without_index_witness:
  "\<not> path_exists quiet_world ''./vectorstore''
   \<and> load_vectorstore quiet_world [] ''./vectorstore'' = (Inr None, [])
   \<and> serve_query ingested_world quiet_world
        \<lparr>question = ''Where is Paris?'', include_sources = True\<rparr>
       = ErrorResponse ''No vector store available. Please ingest documents first.''"
proof -
  have h: "\<not> path_exists quiet_world ''./vectorstore''" by (simp add: quiet_world_def)
  from query_without_index[where w = quiet_world and path = "''./vectorstore''" and tr = "[]"
         and request = "\<lparr>question = ''Where is Paris?'', include_sources = True\<rparr>"
         and w_load = ingested_world] h
  show ?thesis by blast
qed

text \<open>
  Claim C6. Without \<open>include_sources\<close>, no response of \<open>query\<close> has a \<open>sources\<close>
  field, whatever retrieval returns. With \<open>include_sources\<close>, every response that
  carries an answer carries the field, and the field holds the texts of the documents
  that retrieval returned for the question, in the order in which it returned them.
  (An error response has neither an answer nor sources.)
\<close>

theorem query_sources:
  "(\<not> include_sources request \<longrightarrow> sources_of (fst (query c w tr request)) = None)
   \<and> (include_sources request \<longrightarrow>
        (\<forall>a s. fst (query c w tr request) = AnswerResponse a s \<longrightarrow>
           (\<exists>r tr' docs.
              get_retriever w (snd (get_retriever w tr)) = (Some r, tr')
              \<and> get_relevant_documents w r (question request) = Inr docs
              \<and> s = Some (map page_content docs))))"
  by (auto simp: query_def Let_def split: prod.splits option.splits sum.splits)

text \<open>
  In \<open>ingested_world\<close> retrieval ranks \<open>paris\<close> before \<open>berlin\<close>: the sources are
  their texts in that order when asked for, and absent otherwise.
\<close>

theorem query_sources_witness:
  "serve_query ingested_world ingested_world
     \<lparr>question = ''Where is Paris?'', include_sources = True\<rparr>
     = AnswerResponse ''Paris.''
         (Some [''Paris is the capital of France.'', ''Berlin is the capital of Germany.''])
   \<and> get_relevant_documents ingested_world
        (Retriever (FAISS [berlin, paris] (HuggingFaceEmbeddings DEFAULT_EMBEDDING_MODEL)) 4)
        ''Where is Paris?'' = Inr [paris, berlin]
   \<and> sources_of (serve_query ingested_world ingested_world
        \<lparr>question = ''Where is Paris?'', include_sources = False\<rparr>) = None"
proof -
  obtain c tr where c: "create_rag_chain ingested_world [] = (c, tr)"
    by (cases "create_rag_chain ingested_world []")
  have f: "\<not> include_sources \<lparr>question = ''Where is Paris?'', include_sources = False\<rparr>"
    by simp
  from query_sources[of "\<lparr>question = ''Where is Paris?'', include_sources = False\<rparr>"
         c ingested_world tr] f
  have "sources_of (fst (query c ingested_world tr
          \<lparr>question = ''Where is Paris?'', include_sources = False\<rparr>)) = None"
    by blast
  with c have a3: "sources_of (serve_query ingested_world ingested_world
        \<lparr>question = ''Where is Paris?'', include_sources = False\<rparr>) = None"
    by (simp add: serve_query_def)
  have a1: "serve_query ingested_world ingested_world
     \<lparr>question = ''Where is Paris?'', include_sources = True\<rparr>
     = AnswerResponse ''Paris.''
         (Some [''Paris is the capital of France.'', ''Berlin is the capital of Germany.''])"
    by (simp add: world_defs config_defs resolver_defs endpoint_defs string_defs)
  have a2: "get_relevant_documents ingested_world
        (Retriever (FAISS [berlin, paris] (HuggingFaceEmbeddings DEFAULT_EMBEDDING_MODEL)) 4)
        ''Where is Paris?'' = Inr [paris, berlin]"
    by (simp add: ingested_world_def quiet_world_def)
  from a1 a2 a3 show ?thesis by blast
qed

section \<open>The rag endpoint\<close>

text \<open>
  Claim C10, as the code has it. Let \<open>input\<close> be the entry of the request body under
  that key, or the empty object when there is none.
  When \<open>input\<close> is an object whose \<open>question\<close> is missing or false in Python's sense
  (the empty string, \<open>null\<close>, \<open>false\<close>, zero, an empty list or object), \<open>rag\<close>
  returns \<open>{"status": "error", "message": "No question provided"}\<close>.
  When \<open>input\<close> is an object with any other question, \<open>rag\<close> returns an object with
  the key \<open>output\<close>, holding the answer of \<open>query\<close> for that question or a string
  that begins with \<open>Error: \<close>.
  When \<open>input\<close> is not an object, \<open>rag\<close> returns the key \<open>output\<close> with a string
  that begins with \<open>Error: \<close>.
  \<open>rag\<close> returns one of these for every input: it raises nothing.
\<close>

theorem rag_spec:
  "(\<forall>d. dict_get input_data ''input'' (PDict []) = PDict d \<longrightarrow>
      (\<not> py_truthy (dict_get d ''question'' (PStr [])) \<longrightarrow>
         rag c w tr input_data = (StatusError ''No question provided'', tr))
      \<and> (py_truthy (dict_get d ''question'' (PStr [])) \<longrightarrow>
           (\<exists>s a srcs. dict_get d ''question'' (PStr []) = PStr s
              \<and> fst (query c w tr \<lparr>question = s, include_sources = False\<rparr>) = AnswerResponse a srcs
              \<and> fst (rag c w tr input_data) = Output a)
           \<or> (\<exists>m. fst (rag c w tr input_data) = Output (''Error: '' @ m))))
   \<and> ((\<forall>d. dict_get input_data ''input'' (PDict []) \<noteq> PDict d) \<longrightarrow>
        (\<exists>m. fst (rag c w tr input_data) = Output (''Error: '' @ m)))"
proof -
  { fix d
    assume i: "dict_get input_data ''input'' (PDict []) = PDict d"
      and q: "\<not> py_truthy (dict_get d ''question'' (PStr []))"
    then have "rag c w tr input_data = (StatusError ''No question provided'', tr)"
      by (simp add: rag_def Let_def) }
  moreover
  { fix d
    assume i: "dict_get input_data ''input'' (PDict []) = PDict d"
      and q: "py_truthy (dict_get d ''question'' (PStr []))"
    have "(\<exists>s a srcs. dict_get d ''question'' (PStr []) = PStr s
              \<and> fst (query c w tr \<lparr>question = s, include_sources = False\<rparr>) = AnswerResponse a srcs
              \<and> fst (rag c w tr input_data) = Output a)
           \<or> (\<exists>m. fst (rag c w tr input_data) = Output (''Error: '' @ m))"
    proof (cases "dict_get d ''question'' (PStr [])")
      case (PStr s)
      obtain r tr' where r: "query c w tr \<lparr>question = s, include_sources = False\<rparr> = (r, tr')"
        by (cases "query c w tr \<lparr>question = s, include_sources = False\<rparr>")
      show ?thesis
      proof (cases r)
        case (AnswerResponse a srcs)
        with i q PStr r show ?thesis by (simp add: rag_def Let_def)
      next
        case (ErrorResponse m)
        with i q PStr r show ?thesis by (simp add: rag_def Let_def)
      qed
    qed (use i q in \<open>simp_all add: rag_def Let_def\<close>) }
  moreover
  { assume "\<forall>d. dict_get input_data ''input'' (PDict []) \<noteq> PDict d"
    then have "\<exists>m. fst (rag c w tr input_data) = Output (''Error: '' @ m)"
      by (cases "dict_get input_data ''input'' (PDict [])") (simp_all add: rag_def Let_def) }
  ultimately show ?thesis by blast
qed

text \<open>
  A body without \<open>input\<close>, a body with a question, and the body \<open>{"input": null}\<close>.
\<close>

theorem rag_spec_witness:
  "serve_rag ingested_world ingested_world [] = StatusError ''No question provided''
   \<and> serve_rag ingested_world ingested_world
        [(''input'', PDict [(''question'', PStr ''Where is Paris?'')])]
       = Output ''Paris.''
   \<and> serve_rag ingested_world ingested_world [(''input'', PNone)]
       = Output (''Error: '' @ str_exn (no_attribute ''NoneType'' ''get''))"
proof -
  obtain c tr where c: "create_rag_chain ingested_world [] = (c, tr)"
    by (cases "create_rag_chain ingested_world []")
  have i1: "dict_get [] ''input'' (PDict []) = PDict []" by (simp add: dict_get_def)
  have q1: "\<not> py_truthy (dict_get [] ''question'' (PStr []))" by (simp add: dict_get_def)
  from rag_spec[of "[]" c ingested_world tr] i1 q1
  have "rag c ingested_world tr [] = (StatusError ''No question provided'', tr)" by blast
  with c have a1: "serve_rag ingested_world ingested_world [] = StatusError ''No question provided''"
    by (simp add: serve_rag_def)
  have a2: "serve_rag ingested_world ingested_world
        [(''input'', PDict [(''question'', PStr ''Where is Paris?'')])]
       = Output ''Paris.''"
    by (simp add: world_defs config_defs resolver_defs endpoint_defs string_defs)
  have a3: "serve_rag ingested_world ingested_world [(''input'', PNone)]
       = Output (''Error: '' @ str_exn (no_attribute ''NoneType'' ''get''))"
    by (simp add: serve_rag_def rag_def dict_get_def split: prod.splits)
  from a1 a2 a3 show ?thesis by blast
qed

text \<open>
  The claim as it was stated asks for "No question provided" whenever the nested
  question is missing. For the body \<open>{"input": null}\<close> the lookup of the question
  raises, and the handler of \<open>rag\<close> returns an \<open>output\<close> instead.
\<close>

theorem rag_not_an_object_counterexample:
  "serve_rag ingested_world ingested_world [(''input'', PNone)]
     \<noteq> StatusError ''No question provided''"
  by (simp add: serve_rag_def rag_def dict_get_def split: prod.splits)

section \<open>The chain is built once\<close>

text \<open>
  A chain built while nothing was ingested is the message chain, and \<open>query\<close> hands
  its message out as the answer in every later world: whenever such a process
  answers at all, the answer is that message.
\<close>

lemma stale_chain_answer:
  assumes "\<not> path_exists w_load ''./vectorstore''"
    and "serve_query w_load w request = AnswerResponse a s"
  shows "a = ''No documents have been ingested yet. Please ingest some documents first.''"
proof -
  from assms(1) have c: "create_rag_chain w_load []
      = (MessageChain ''No documents have been ingested yet. Please ingest some documents first.'', [])"
    by (simp add: create_rag_chain_def get_retriever_def)
  have e: "extract_answer ''No documents have been ingested yet. Please ingest some documents first.''
      = ''No documents have been ingested yet. Please ingest some documents first.''"
    by (simp add: extract_answer_def)
  from assms(2) show ?thesis
    unfolding serve_query_def c
    by (auto simp: query_def invoke_def e Let_def split: prod.splits option.splits sum.splits if_splits)
qed

text \<open>
  Claim C1, on the code. The claim asks that every query is answered from the index and
  the backend of its own moment. Two runs show what the code does instead.
  The process is started in \<open>quiet_world\<close>, where nothing is ingested, and the
  request arrives in \<open>ingested_world\<close>, where an index is persisted and loads: the
  answer is the message of the chain built at start, while a chain built in the world of
  the request answers from the index.
  The process is started in \<open>ingested_world\<close>, where the provider is the local one,
  and the request arrives in \<open>reconfigured_world\<close>, where the enterprise provider has
  been saved: the answer is that of the local pipeline, while a chain built in the
  world of the request gives the answer of the enterprise backend.
\<close>

theorem serve_query_stale_chain:
  "serve_query quiet_world ingested_world
     \<lparr>question = ''Where is Paris?'', include_sources = False\<rparr>
     = AnswerResponse
         ''No documents have been ingested yet. Please ingest some documents first.'' None
   \<and> serve_query ingested_world ingested_world
       \<lparr>question = ''Where is Paris?'', include_sources = False\<rparr>
     = AnswerResponse ''Paris.'' None
   \<and> serve_query ingested_world reconfigured_world
       \<lparr>question = ''Where is Paris?'', include_sources = False\<rparr>
     = AnswerResponse ''Paris.'' None
   \<and> serve_query reconfigured_world reconfigured_world
       \<lparr>question = ''Where is Paris?'', include_sources = False\<rparr>
     = AnswerResponse ''Lyon.'' None"
  by (simp add: world_defs config_defs resolver_defs endpoint_defs string_defs)

end
